theory Spec2Isabelle
  imports Complex_Main "HOL-Library.Sublist"
begin

section \<open>Exceptions, standard output and the log of calls\<close>

text \<open>
  Both scripts are straight-line Python around calls into an SDK. A call into the SDK
  either returns or raises; every handler of the scripts is \<^verbatim>\<open>except Exception as e\<close>,
  and all it does with \<open>e\<close> is format it (\<^verbatim>\<open>f"Error: {e}"\<close>) and re-raise it. An exception
  is therefore a value that carries the text \<^verbatim>\<open>str(e)\<close>; only exceptions derived from
  \<^verbatim>\<open>Exception\<close>, the ones the handlers catch, are modelled.
\<close>

datatype error = Exception (message: string)

text \<open>
  One entry per call of \<^verbatim>\<open>print\<close>. \<^verbatim>\<open>print(json.dumps(response, indent=2))\<close> is recorded
  with the dictionary that is dumped, not with its rendering.
\<close>

datatype 'r out = Print string | PrintJson 'r

text \<open>
  The state a script threads through: the calls into the SDK made so far (in the order
  they were made, the failed ones included) and what has been printed.
\<close>

record ('c, 'r) world =
  calls :: "'c list"
  stdout :: "'r out list"

definition print :: "string \<Rightarrow> ('c, 'r) world \<Rightarrow> ('c, 'r) world" where
  "print s w = w\<lparr>stdout := stdout w @ [Print s]\<rparr>"

definition print_json :: "'r \<Rightarrow> ('c, 'r) world \<Rightarrow> ('c, 'r) world" where
  "print_json r w = w\<lparr>stdout := stdout w @ [PrintJson r]\<rparr>"

definition issue :: "'c \<Rightarrow> ('c, 'r) world \<Rightarrow> ('c, 'r) world" where
  "issue c w = w\<lparr>calls := calls w @ [c]\<rparr>"

definition newline :: char where
  "newline = CHR 0x0A"

text \<open>Python's \<^verbatim>\<open>sep.join(xs)\<close> on a list of strings.\<close>

fun join :: "string \<Rightarrow> string list \<Rightarrow> string" where
  "join sep [] = []"
| "join sep [x] = x"
| "join sep (x # y # ys) = x @ sep @ join sep (y # ys)"

text \<open>Python's \<^verbatim>\<open>s.split("\n")\<close>: the lines of a string.\<close>

fun split_lines :: "string \<Rightarrow> string list" where
  "split_lines [] = [[]]"
| "split_lines (c # cs) =
     (if c = newline then [] # split_lines cs
      else (case split_lines cs of
              [] \<Rightarrow> [[c]]
            | l # ls \<Rightarrow> (c # l) # ls))"

section \<open>The agent tool: \<^verbatim>\<open>azure_foundry_agent_inference.py\<close>\<close>

subsection \<open>What the SDK returns\<close>

text \<open>
  The script reads \<^verbatim>\<open>thread.id\<close>, \<^verbatim>\<open>msg.role\<close> and \<^verbatim>\<open>agent.id\<close> directly and guards
  every other attribute with \<^verbatim>\<open>hasattr\<close>. A guarded attribute is an \<open>option\<close>:
  \<open>None\<close> when the object has no such attribute.
\<close>

datatype text_obj = TextObj (value_attr: "string option")

datatype content_item = ContentItem (text_attr: "text_obj option")

text \<open>
  \<open>msg_content\<close> is \<open>None\<close> when the message has no \<^verbatim>\<open>content\<close> attribute; an empty list
  is Python's falsy \<^verbatim>\<open>msg.content\<close>.
\<close>

record message =
  msg_role :: string
  msg_content :: "content_item list option"

record agent_thread =
  t_id :: string

record run =
  r_id :: "string option"

record agent =
  a_id :: string
  a_name :: "string option"
  a_description :: "string option"

subsection \<open>What the script builds\<close>

record message_dict =
  md_role :: string
  md_content :: "string list"

record agent_result =
  thread_id :: string
  run_id :: "string option"
  messages :: "message_dict list"
  agent_response :: string

record agent_info =
  info_id :: string
  info_name :: string
  info_description :: string

subsection \<open>The calls into the SDK\<close>

text \<open>
  \<open>Messages_create thread_id role content\<close>: the content is the list of dictionaries
  the script passes, each an association list in the order its keys are written.
\<close>

datatype agent_call =
    DefaultAzureCredential
  | AIProjectClient string
  | Threads_create
  | Messages_create string string "(string \<times> string) list list"
  | Runs_create_and_process string string
  | Messages_list string
  | List_agents

text \<open>
  The SDK and the service behind it are a parameter of the model. Each operation sees
  the calls made before it, so the service may keep any state it likes, and either
  raises (\<open>Some e\<close>, \<open>Inl e\<close>) or returns.
\<close>

record agent_service =
  default_azure_credential :: "agent_call list \<Rightarrow> error option"
  ai_project_client :: "agent_call list \<Rightarrow> string \<Rightarrow> error option"
  threads_create :: "agent_call list \<Rightarrow> error + agent_thread"
  messages_create ::
    "agent_call list \<Rightarrow> string \<Rightarrow> string \<Rightarrow> (string \<times> string) list list \<Rightarrow> error option"
  runs_create_and_process :: "agent_call list \<Rightarrow> string \<Rightarrow> string \<Rightarrow> error + run"
  messages_list :: "agent_call list \<Rightarrow> string \<Rightarrow> error + message list"
  agents_list_agents :: "agent_call list \<Rightarrow> error + agent list"

type_synonym agent_world = "(agent_call, agent_result) world"

subsection \<open>\<^verbatim>\<open>create_agent_client\<close>\<close>

datatype client = Client (client_endpoint: string)

definition create_agent_client ::
  "agent_service \<Rightarrow> string \<Rightarrow> agent_world \<Rightarrow> (error + client) \<times> agent_world" where
  "create_agent_client srv endpoint w =
     (let w1 = issue DefaultAzureCredential w in
      case default_azure_credential srv (calls w) of
        Some e \<Rightarrow> (Inl e, print (''Error creating client: '' @ message e) w1)
      | None \<Rightarrow>
          (let w2 = issue (AIProjectClient endpoint) w1 in
           case ai_project_client srv (calls w1) endpoint of
             Some e \<Rightarrow> (Inl e, print (''Error creating client: '' @ message e) w2)
           | None \<Rightarrow> (Inr (Client endpoint), w2)))"

subsection \<open>\<^verbatim>\<open>make_agent_inference_request\<close>: building the result (lines 77 to 105)\<close>

text \<open>
  The inner loop over \<^verbatim>\<open>msg.content\<close>: a fragment's value is appended when the fragment
  has a \<^verbatim>\<open>text\<close> attribute and that has a \<^verbatim>\<open>value\<close> attribute.
\<close>

fun collect_content :: "content_item list \<Rightarrow> string list \<Rightarrow> string list" where
  "collect_content [] acc = acc"
| "collect_content (c # cs) acc =
     (case text_attr c of
        None \<Rightarrow> collect_content cs acc
      | Some t \<Rightarrow>
          (case value_attr t of
             None \<Rightarrow> collect_content cs acc
           | Some v \<Rightarrow> collect_content cs (acc @ [v])))"

text \<open>
  The body of the outer loop for one message: the dictionary appended to
  \<^verbatim>\<open>result["messages"]\<close> and the new \<^verbatim>\<open>agent_responses\<close>.
\<close>

definition normalize_message :: "message \<Rightarrow> string list \<Rightarrow> message_dict \<times> string list" where
  "normalize_message msg agent_responses =
     (let message_dict = \<lparr>md_role = msg_role msg, md_content = []\<rparr> in
      case msg_content msg of
        None \<Rightarrow> (message_dict, agent_responses)
      | Some cs \<Rightarrow>
          if cs = [] then (message_dict, agent_responses)
          else
            (let message_dict = message_dict\<lparr>md_content := collect_content cs (md_content message_dict)\<rparr> in
             if md_role message_dict = ''assistant'' \<and> md_content message_dict \<noteq> []
             then (message_dict, agent_responses @ md_content message_dict)
             else (message_dict, agent_responses)))"

fun normalize_messages ::
  "message list \<Rightarrow> message_dict list \<Rightarrow> string list \<Rightarrow> message_dict list \<times> string list" where
  "normalize_messages [] result_messages agent_responses = (result_messages, agent_responses)"
| "normalize_messages (msg # rest) result_messages agent_responses =
     (case normalize_message msg agent_responses of
        (message_dict, agent_responses') \<Rightarrow>
          normalize_messages rest (result_messages @ [message_dict]) agent_responses')"

definition build_result :: "agent_thread \<Rightarrow> run \<Rightarrow> message list \<Rightarrow> agent_result" where
  "build_result thread rn msgs =
     (case normalize_messages msgs [] [] of
        (result_messages, agent_responses) \<Rightarrow>
          \<lparr>thread_id = t_id thread,
           run_id = r_id rn,
           messages = result_messages,
           agent_response =
             (if agent_responses \<noteq> [] then join [newline] agent_responses else [])\<rparr>)"

definition user_content :: "string \<Rightarrow> (string \<times> string) list list" where
  "user_content prompt = [[(''type'', ''text''), (''text'', prompt)]]"

definition make_agent_inference_request ::
  "agent_service \<Rightarrow> string \<Rightarrow> string \<Rightarrow> string \<Rightarrow> agent_world
     \<Rightarrow> (error + agent_result) \<times> agent_world" where
  "make_agent_inference_request srv endpoint agent_id prompt w =
     (case create_agent_client srv endpoint w of
        (Inl e, w1) \<Rightarrow> (Inl e, print (''Error: '' @ message e) w1)
      | (Inr client, w1) \<Rightarrow>
          (let w2 = issue Threads_create w1 in
           case threads_create srv (calls w1) of
             Inl e \<Rightarrow> (Inl e, print (''Error: '' @ message e) w2)
           | Inr thread \<Rightarrow>
               (let w3 = issue (Messages_create (t_id thread) ''user'' (user_content prompt)) w2 in
                case messages_create srv (calls w2) (t_id thread) ''user'' (user_content prompt) of
                  Some e \<Rightarrow> (Inl e, print (''Error: '' @ message e) w3)
                | None \<Rightarrow>
                    (let w4 = issue (Runs_create_and_process (t_id thread) agent_id) w3 in
                     case runs_create_and_process srv (calls w3) (t_id thread) agent_id of
                       Inl e \<Rightarrow> (Inl e, print (''Error: '' @ message e) w4)
                     | Inr rn \<Rightarrow>
                         (let w5 = issue (Messages_list (t_id thread)) w4 in
                          case messages_list srv (calls w4) (t_id thread) of
                            Inl e \<Rightarrow> (Inl e, print (''Error: '' @ message e) w5)
                          | Inr msgs \<Rightarrow> (Inr (build_result thread rn msgs), w5))))))"

subsection \<open>\<^verbatim>\<open>list_agents\<close>\<close>

text \<open>The loop over the listed agents, appending one dictionary per agent.\<close>

definition make_agent_info :: "agent \<Rightarrow> agent_info" where
  "make_agent_info a =
     \<lparr>info_id = a_id a,
      info_name = (case a_name a of Some n \<Rightarrow> n | None \<Rightarrow> ''Unknown''),
      info_description = (case a_description a of Some d \<Rightarrow> d | None \<Rightarrow> [])\<rparr>"

fun collect_agents :: "agent list \<Rightarrow> agent_info list \<Rightarrow> agent_info list" where
  "collect_agents [] agents = agents"
| "collect_agents (a # rest) agents = collect_agents rest (agents @ [make_agent_info a])"

definition list_agents ::
  "agent_service \<Rightarrow> string \<Rightarrow> agent_world \<Rightarrow> (error + agent_info list) \<times> agent_world" where
  "list_agents srv endpoint w =
     (case create_agent_client srv endpoint w of
        (Inl e, w1) \<Rightarrow> (Inl e, print (''Error: '' @ message e) w1)
      | (Inr client, w1) \<Rightarrow>
          (let w2 = issue List_agents w1 in
           case agents_list_agents srv (calls w1) of
             Inl e \<Rightarrow> (Inl e, print (''Error: '' @ message e) w2)
           | Inr agents_list \<Rightarrow> (Inr (collect_agents agents_list []), w2)))"

subsection \<open>\<^verbatim>\<open>main\<close> of the agent tool\<close>

text \<open>The parsed command line (\<^verbatim>\<open>args\<close>); \<open>main\<close> returns the exit status of the process.\<close>

record agent_args =
  arg_endpoint :: string
  arg_agent_id :: string
  arg_prompt :: string
  arg_list_agents :: bool

fun print_agents :: "agent_info list \<Rightarrow> agent_world \<Rightarrow> agent_world" where
  "print_agents [] w = w"
| "print_agents (a # rest) w =
     (let w1 = print (''- '' @ info_name a @ '' (ID: '' @ info_id a @ '')'') w;
          w2 = (if info_description a \<noteq> []
                then print (''  Description: '' @ info_description a) w1 else w1)
      in print_agents rest w2)"

definition agent_main :: "agent_service \<Rightarrow> agent_args \<Rightarrow> agent_world \<Rightarrow> nat \<times> agent_world" where
  "agent_main srv args w =
     (if arg_list_agents args then
        (let w1 = print ''Fetching available agents...'' w in
         case list_agents srv (arg_endpoint args) w1 of
           (Inl e, w2) \<Rightarrow> (1, print (''Error: '' @ message e) w2)
         | (Inr agents, w2) \<Rightarrow>
             (0, print_agents agents (print (newline # ''Available agents:'') w2)))
      else
        (let w1 = print (''Invoking agent: '' @ arg_agent_id args) w;
             w2 = print (''Prompt: '' @ arg_prompt args) w1;
             w3 = print (replicate 50 CHR ''-'') w2
         in case make_agent_inference_request srv (arg_endpoint args) (arg_agent_id args)
                   (arg_prompt args) w3 of
              (Inl e, w4) \<Rightarrow> (1, print (''Error: '' @ message e) w4)
            | (Inr response, w4) \<Rightarrow>
                (let w5 = print ''Response:'' w4;
                     w6 = print_json response w5;
                     w7 = (if agent_response response \<noteq> []
                           then print (agent_response response)
                                  (print (newline # ''Agent Response:'') w6)
                           else w6)
                 in (0, w7))))"

section \<open>The direct tool: \<^verbatim>\<open>azure_foundry_inference.py\<close>\<close>

subsection \<open>What the SDK returns and what the script builds\<close>

text \<open>
  \<^verbatim>\<open>choice.message.content\<close> is a string or Python's \<^verbatim>\<open>None\<close>. The temperature is a
  Python float that the script only hands on; it is the number the float stands for.
\<close>

record choice_message =
  cm_role :: string
  cm_content :: "string option"

record choice =
  ch_message :: choice_message

record completion =
  c_id :: string
  c_model :: string
  c_choices :: "choice list"

record choice_dict =
  cd_message :: choice_message

record inference_result =
  res_id :: string
  res_model :: string
  res_choices :: "choice_dict list"

text \<open>
  \<open>AzureOpenAI api_key api_version azure_endpoint\<close> and
  \<open>Chat_completions_create model messages max_tokens temperature\<close>.
\<close>

datatype openai_call =
    AzureOpenAI string string string
  | Chat_completions_create string "(string \<times> string) list list" int real

record openai_service =
  azure_openai :: "openai_call list \<Rightarrow> string \<Rightarrow> string \<Rightarrow> string \<Rightarrow> error option"
  chat_completions_create ::
    "openai_call list \<Rightarrow> string \<Rightarrow> (string \<times> string) list list \<Rightarrow> int \<Rightarrow> real
       \<Rightarrow> error + completion"

type_synonym openai_world = "(openai_call, inference_result) world"

subsection \<open>\<^verbatim>\<open>make_inference_request\<close>\<close>

fun collect_choices :: "choice list \<Rightarrow> choice_dict list \<Rightarrow> choice_dict list" where
  "collect_choices [] acc = acc"
| "collect_choices (c # cs) acc =
     collect_choices cs
       (acc @ [\<lparr>cd_message =
                   \<lparr>cm_role = cm_role (ch_message c), cm_content = cm_content (ch_message c)\<rparr>\<rparr>])"

definition user_messages :: "string \<Rightarrow> (string \<times> string) list list" where
  "user_messages prompt = [[(''role'', ''user''), (''content'', prompt)]]"

definition make_inference_request ::
  "openai_service \<Rightarrow> string \<Rightarrow> string \<Rightarrow> string \<Rightarrow> string \<Rightarrow> int \<Rightarrow> real \<Rightarrow> openai_world
     \<Rightarrow> (error + inference_result) \<times> openai_world" where
  "make_inference_request srv endpoint api_key deployment_name prompt max_tokens temperature w =
     (let w1 = issue (AzureOpenAI api_key ''2024-02-01'' endpoint) w in
      case azure_openai srv (calls w) api_key ''2024-02-01'' endpoint of
        Some e \<Rightarrow> (Inl e, print (''Error: '' @ message e) w1)
      | None \<Rightarrow>
          (let msgs = user_messages prompt;
               w2 = issue (Chat_completions_create deployment_name msgs max_tokens temperature) w1
           in case chat_completions_create srv (calls w1) deployment_name msgs max_tokens
                     temperature of
                Inl e \<Rightarrow> (Inl e, print (''Error: '' @ message e) w2)
              | Inr response \<Rightarrow>
                  (Inr \<lparr>res_id = c_id response,
                        res_model = c_model response,
                        res_choices = collect_choices (c_choices response) []\<rparr>, w2)))"

subsection \<open>\<^verbatim>\<open>list_models\<close>\<close>

definition list_models ::
  "openai_service \<Rightarrow> string \<Rightarrow> string \<Rightarrow> openai_world
     \<Rightarrow> (error + (string \<times> string) list list) \<times> openai_world" where
  "list_models srv endpoint api_key w =
     (let w1 = issue (AzureOpenAI api_key ''2024-02-01'' endpoint) w in
      case azure_openai srv (calls w) api_key ''2024-02-01'' endpoint of
        Some e \<Rightarrow> (Inl e, print (''Error: '' @ message e) w1)
      | None \<Rightarrow>
          (Inr [[(''name'', ''gpt-4''), (''model'', ''gpt-4'')],
                [(''name'', ''gpt-3.5-turbo''), (''model'', ''gpt-3.5-turbo'')]], w1))"

subsection \<open>\<^verbatim>\<open>main\<close> of the direct tool\<close>

record inference_args =
  iarg_endpoint :: string
  iarg_api_key :: string
  iarg_model :: string
  iarg_prompt :: string
  iarg_max_tokens :: int
  iarg_temperature :: real
  iarg_list_models :: bool

text \<open>
  \<^verbatim>\<open>d[k]\<close> on a dictionary written as an association list; a missing key raises
  \<^verbatim>\<open>KeyError(k)\<close>, whose text is the key in quotes.
\<close>

definition getitem :: "(string \<times> string) list \<Rightarrow> string \<Rightarrow> error + string" where
  "getitem d k =
     (case map_of d k of
        None \<Rightarrow> Inl (Exception ([CHR 0x27] @ k @ [CHR 0x27]))
      | Some v \<Rightarrow> Inr v)"

fun print_models :: "(string \<times> string) list list \<Rightarrow> openai_world \<Rightarrow> error option \<times> openai_world" where
  "print_models [] w = (None, w)"
| "print_models (m # rest) w =
     (case getitem m ''name'' of
        Inl e \<Rightarrow> (Some e, w)
      | Inr n \<Rightarrow>
          (case getitem m ''model'' of
             Inl e \<Rightarrow> (Some e, w)
           | Inr md \<Rightarrow> print_models rest (print (''- '' @ n @ '' ('' @ md @ '')'') w)))"

definition inference_main ::
  "openai_service \<Rightarrow> inference_args \<Rightarrow> openai_world \<Rightarrow> nat \<times> openai_world" where
  "inference_main srv args w =
     (if iarg_list_models args then
        (let w1 = print ''Fetching available models...'' w in
         case list_models srv (iarg_endpoint args) (iarg_api_key args) w1 of
           (Inl e, w2) \<Rightarrow> (1, print (''Error: '' @ message e) w2)
         | (Inr models, w2) \<Rightarrow>
             (let w3 = print (newline # ''Available models:'') w2 in
              case print_models models w3 of
                (Some e, w4) \<Rightarrow> (1, print (''Error: '' @ message e) w4)
              | (None, w4) \<Rightarrow> (0, w4)))
      else
        (let w1 = print (''Making inference request with model: '' @ iarg_model args) w;
             w2 = print (''Prompt: '' @ iarg_prompt args) w1;
             w3 = print (replicate 50 CHR ''-'') w2
         in case make_inference_request srv (iarg_endpoint args) (iarg_api_key args)
                   (iarg_model args) (iarg_prompt args) (iarg_max_tokens args)
                   (iarg_temperature args) w3 of
              (Inl e, w4) \<Rightarrow> (1, print (''Error: '' @ message e) w4)
            | (Inr response, w4) \<Rightarrow>
                (let w5 = print ''Response:'' w4;
                     w6 = print_json response w5;
                     w7 = (case res_choices response of
                             [] \<Rightarrow> w6
                           | c # _ \<Rightarrow>
                               (case cm_content (cd_message c) of
                                  None \<Rightarrow> w6
                                | Some generated_text \<Rightarrow>
                                    if generated_text \<noteq> []
                                    then print generated_text
                                           (print (newline # ''Generated text:'') w6)
                                    else w6))
                 in (0, w7))))"

section \<open>The specification's notions\<close>

text \<open>
  The specification speaks of the text fragment values of a message: a fragment carries
  a text value when it has a \<^verbatim>\<open>text\<close> attribute which has a \<^verbatim>\<open>value\<close> attribute. The
  definitions of this section follow the specification's words; the theorems below
  compare them with the loops of the script.
\<close>

definition spec_has_text_value :: "content_item \<Rightarrow> bool" where
  "spec_has_text_value c = (case text_attr c of None \<Rightarrow> False | Some t \<Rightarrow> value_attr t \<noteq> None)"

definition spec_fragment_value :: "content_item \<Rightarrow> string option" where
  "spec_fragment_value c = (case text_attr c of None \<Rightarrow> None | Some t \<Rightarrow> value_attr t)"

definition spec_text_values :: "message \<Rightarrow> string list" where
  "spec_text_values m =
     (case msg_content m of
        None \<Rightarrow> []
      | Some cs \<Rightarrow> map (the \<circ> spec_fragment_value) (filter spec_has_text_value cs))"

definition spec_assistant_values :: "message list \<Rightarrow> string list" where
  "spec_assistant_values msgs =
     concat (map spec_text_values (filter (\<lambda>m. msg_role m = ''assistant'') msgs))"

definition spec_agent_response :: "message list \<Rightarrow> string" where
  "spec_agent_response msgs = join [newline] (spec_assistant_values msgs)"

definition spec_message_dict :: "message \<Rightarrow> message_dict" where
  "spec_message_dict m = \<lparr>md_role = msg_role m, md_content = spec_text_values m\<rparr>"


text \<open>The lines \<open>main\<close> prints for one listed agent.\<close>

definition spec_agent_lines :: "agent_info \<Rightarrow> agent_result out list" where
  "spec_agent_lines a =
     Print (''- '' @ info_name a @ '' (ID: '' @ info_id a @ '')'')
       # (if info_description a \<noteq> [] then [Print (''  Description: '' @ info_description a)] else [])"

text \<open>
  What the service answered to a logged call: the error it raised, if any. \<open>errors_raised\<close>
  replays a stretch of the log after the history \<open>h\<close> and lists the errors raised, in order.
\<close>

fun agent_call_error :: "agent_service \<Rightarrow> agent_call list \<Rightarrow> agent_call \<Rightarrow> error option" where
  "agent_call_error srv h DefaultAzureCredential = default_azure_credential srv h"
| "agent_call_error srv h (AIProjectClient endpoint) = ai_project_client srv h endpoint"
| "agent_call_error srv h Threads_create =
     (case threads_create srv h of Inl e \<Rightarrow> Some e | Inr t \<Rightarrow> None)"
| "agent_call_error srv h (Messages_create tid role content) = messages_create srv h tid role content"
| "agent_call_error srv h (Runs_create_and_process tid agent_id) =
     (case runs_create_and_process srv h tid agent_id of Inl e \<Rightarrow> Some e | Inr r \<Rightarrow> None)"
| "agent_call_error srv h (Messages_list tid) =
     (case messages_list srv h tid of Inl e \<Rightarrow> Some e | Inr ms \<Rightarrow> None)"
| "agent_call_error srv h List_agents =
     (case agents_list_agents srv h of Inl e \<Rightarrow> Some e | Inr as \<Rightarrow> None)"

fun openai_call_error :: "openai_service \<Rightarrow> openai_call list \<Rightarrow> openai_call \<Rightarrow> error option" where
  "openai_call_error srv h (AzureOpenAI api_key api_version endpoint) =
     azure_openai srv h api_key api_version endpoint"
| "openai_call_error srv h (Chat_completions_create model msgs max_tokens temperature) =
     (case chat_completions_create srv h model msgs max_tokens temperature of
        Inl e \<Rightarrow> Some e
      | Inr r \<Rightarrow> None)"

fun errors_raised :: "('c list \<Rightarrow> 'c \<Rightarrow> error option) \<Rightarrow> 'c list \<Rightarrow> 'c list \<Rightarrow> error list" where
  "errors_raised answer h [] = []"
| "errors_raised answer h (c # cs) =
     (case answer h c of None \<Rightarrow> [] | Some e \<Rightarrow> [e]) @ errors_raised answer (h @ [c]) cs"

text \<open>
  The propagation policy of the specification, for a wrapper and for \<open>main\<close>. A wrapper
  started in world \<open>w\<close> propagates when: if it raises \<open>e\<close>, then \<open>e\<close> is the only error the
  service raised during the wrapper, it was raised by the last call made, and the last
  thing printed is the message for \<open>e\<close>; if it returns, the service raised nothing.
  \<open>create_agent_client\<close>, the wrapper around the construction of the agent tool's client,
  has a message of its own, \<open>Error creating client: \<close> followed by the error's text.
  \<open>main\<close> propagates when: if the service raised nothing the exit status is 0; otherwise
  exactly one error \<open>e\<close> was raised, by the last call made, the exit status is 1, and the
  last two things printed are the wrapper's message and \<open>main\<close>'s message for \<open>e\<close>.
\<close>

definition spec_wrapper_propagates ::
  "('c list \<Rightarrow> 'c \<Rightarrow> error option) \<Rightarrow> ('c, 'r) world \<Rightarrow> (error + 'a) \<times> ('c, 'r) world \<Rightarrow> bool" where
  "spec_wrapper_propagates answer w outcome =
     (case outcome of
        (Inl e, w') \<Rightarrow>
            errors_raised answer (calls w) (drop (length (calls w)) (calls w')) = [e]
          \<and> answer (butlast (calls w')) (last (calls w')) = Some e
          \<and> last (stdout w') = Print (''Error: '' @ message e)
      | (Inr r, w') \<Rightarrow>
            errors_raised answer (calls w) (drop (length (calls w)) (calls w')) = [])"

definition spec_client_wrapper_propagates ::
  "('c list \<Rightarrow> 'c \<Rightarrow> error option) \<Rightarrow> ('c, 'r) world \<Rightarrow> (error + 'a) \<times> ('c, 'r) world \<Rightarrow> bool" where
  "spec_client_wrapper_propagates answer w outcome =
     (case outcome of
        (Inl e, w') \<Rightarrow>
            errors_raised answer (calls w) (drop (length (calls w)) (calls w')) = [e]
          \<and> answer (butlast (calls w')) (last (calls w')) = Some e
          \<and> last (stdout w') = Print (''Error creating client: '' @ message e)
      | (Inr r, w') \<Rightarrow>
            errors_raised answer (calls w) (drop (length (calls w)) (calls w')) = []
          \<and> stdout w' = stdout w)"

definition spec_main_propagates ::
  "('c list \<Rightarrow> 'c \<Rightarrow> error option) \<Rightarrow> ('c, 'r) world \<Rightarrow> nat \<times> ('c, 'r) world \<Rightarrow> bool" where
  "spec_main_propagates answer w outcome =
     (case outcome of
        (status, w') \<Rightarrow>
          (case errors_raised answer (calls w) (drop (length (calls w)) (calls w')) of
             [] \<Rightarrow> status = 0
           | e # es \<Rightarrow>
                 es = []
               \<and> answer (butlast (calls w')) (last (calls w')) = Some e
               \<and> status = 1
               \<and> last (butlast (stdout w')) = Print (''Error: '' @ message e)
               \<and> last (stdout w') = Print (''Error: '' @ message e)))"

section \<open>Example services\<close>

text \<open>Concrete services and inputs on which the theorems are run.\<close>

definition start :: "('c, 'r) world" where
  "start = \<lparr>calls = [], stdout = []\<rparr>"

definition example_messages :: "message list" where
  "example_messages =
     [\<lparr>msg_role = ''assistant'',
       msg_content = Some [ContentItem (Some (TextObj (Some ''Hello''))),
                           ContentItem None,
                           ContentItem (Some (TextObj None)),
                           ContentItem (Some (TextObj (Some ''there'')))]\<rparr>,
      \<lparr>msg_role = ''assistant'', msg_content = Some [ContentItem None]\<rparr>,
      \<lparr>msg_role = ''assistant'', msg_content = None\<rparr>,
      \<lparr>msg_role = ''user'', msg_content = Some [ContentItem (Some (TextObj (Some ''hi'')))]\<rparr>]"

definition example_agents :: "agent list" where
  "example_agents =
     [\<lparr>a_id = ''A123'', a_name = Some ''helper'', a_description = Some ''answers''\<rparr>,
      \<lparr>a_id = ''A124'', a_name = None, a_description = None\<rparr>]"

definition example_service :: agent_service where
  "example_service =
     \<lparr>default_azure_credential = (\<lambda>h. None),
      ai_project_client = (\<lambda>h ep. None),
      threads_create = (\<lambda>h. Inr \<lparr>t_id = ''T1''\<rparr>),
      messages_create = (\<lambda>h tid role c. None),
      runs_create_and_process = (\<lambda>h tid aid. Inr \<lparr>r_id = Some ''R1''\<rparr>),
      messages_list = (\<lambda>h tid. Inr example_messages),
      agents_list_agents = (\<lambda>h. Inr example_agents)\<rparr>"

definition example_args :: agent_args where
  "example_args =
     \<lparr>arg_endpoint = ''E'', arg_agent_id = ''A123'', arg_prompt = ''hi'', arg_list_agents = False\<rparr>"

definition multiline_message :: message where
  "multiline_message =
     \<lparr>msg_role = ''assistant'',
      msg_content = Some [ContentItem (Some (TextObj (Some (''a'' @ [newline] @ ''b''))))]\<rparr>"

definition multiline_service :: agent_service where
  "multiline_service = example_service\<lparr>messages_list := (\<lambda>h tid. Inr [multiline_message])\<rparr>"

definition failing_service :: agent_service where
  "failing_service =
     example_service\<lparr>runs_create_and_process := (\<lambda>h tid aid. Inl (Exception ''boom''))\<rparr>"

definition example_completion :: completion where
  "example_completion =
     \<lparr>c_id = ''chatcmpl-1'', c_model = ''gpt-4'',
      c_choices = [\<lparr>ch_message = \<lparr>cm_role = ''assistant'', cm_content = Some ''pong''\<rparr>\<rparr>,
                   \<lparr>ch_message = \<lparr>cm_role = ''assistant'', cm_content = None\<rparr>\<rparr>]\<rparr>"

definition example_openai :: openai_service where
  "example_openai =
     \<lparr>azure_openai = (\<lambda>h k v ep. None),
      chat_completions_create = (\<lambda>h m msgs mt temp. Inr example_completion)\<rparr>"

definition example_inference_args :: inference_args where
  "example_inference_args =
     \<lparr>iarg_endpoint = ''https://x.openai.azure.com'', iarg_api_key = ''K'', iarg_model = ''gpt-4'',
      iarg_prompt = ''ping'', iarg_max_tokens = 5, iarg_temperature = 0, iarg_list_models = False\<rparr>"

definition unreachable_service :: agent_service where
  "unreachable_service =
     example_service\<lparr>ai_project_client := (\<lambda>h ep. Some (Exception ''bad endpoint''))\<rparr>"

definition failing_openai :: openai_service where
  "failing_openai = example_openai\<lparr>azure_openai := (\<lambda>h k v ep. Some (Exception ''bad endpoint''))\<rparr>"

section \<open>Properties of the model\<close>

lemma collect_content_eq: "collect_content cs acc = acc @ map (the \<circ> spec_fragment_value) (filter spec_has_text_value cs)"
  by (induction cs arbitrary: acc)
     (auto simp: spec_fragment_value_def spec_has_text_value_def split: option.splits)

lemma normalize_message_eq:
  "normalize_message msg ar =
     (spec_message_dict msg,
      ar @ (if msg_role msg = ''assistant'' then spec_text_values msg else []))"
  by (auto simp: normalize_message_def spec_message_dict_def spec_text_values_def
        collect_content_eq Let_def split: option.splits)

lemma normalize_messages_eq:
  "normalize_messages msgs rm ar =
     (rm @ map spec_message_dict msgs, ar @ spec_assistant_values msgs)"
  by (induction msgs arbitrary: rm ar)
     (auto simp: normalize_message_eq spec_assistant_values_def)

lemma join_if_nonempty: "(if xs \<noteq> [] then join sep xs else []) = join sep xs"
  by (cases xs) simp_all

lemma build_result_eq:
  "build_result t rn msgs =
     \<lparr>thread_id = t_id t, run_id = r_id rn, messages = map spec_message_dict msgs,
      agent_response = spec_agent_response msgs\<rparr>"
  by (simp add: build_result_def normalize_messages_eq spec_agent_response_def
        join_if_nonempty)

lemma listing_returned:
  assumes "make_agent_inference_request srv ep aid p w = (res, w')"
    and "last (calls w') = Messages_list tid"
    and "messages_list srv (butlast (calls w')) tid = Inr msgs"
  shows "\<exists>t rn. res = Inr (build_result t rn msgs) \<and> t_id t = tid"
  using assms
  by (auto simp: make_agent_inference_request_def create_agent_client_def issue_def print_def
        Let_def butlast_append split: option.splits sum.splits prod.splits; blast)

lemma example_run:
  "make_agent_inference_request example_service ''E'' ''A123'' ''hi'' start =
     (Inr (build_result \<lparr>t_id = ''T1''\<rparr> \<lparr>r_id = Some ''R1''\<rparr> example_messages),
      \<lparr>calls = [DefaultAzureCredential, AIProjectClient ''E'', Threads_create,
                Messages_create ''T1'' ''user'' [[(''type'', ''text''), (''text'', ''hi'')]],
                Runs_create_and_process ''T1'' ''A123'', Messages_list ''T1''],
       stdout = []\<rparr>)"
  by (simp add: make_agent_inference_request_def create_agent_client_def issue_def
        example_service_def start_def user_content_def)

lemma split_lines_line: "newline \<notin> set v \<Longrightarrow> split_lines v = [v]"
  by (induction v) auto

lemma split_lines_append:
  "newline \<notin> set v \<Longrightarrow> split_lines (v @ newline # rest) = v # split_lines rest"
  by (induction v) auto

lemma split_lines_join:
  "vs \<noteq> [] \<Longrightarrow> \<forall>v \<in> set vs. newline \<notin> set v \<Longrightarrow> split_lines (join [newline] vs) = vs"
  by (induction "[newline]" vs rule: join.induct) (simp_all add: split_lines_line split_lines_append)

lemma spec_text_values_Nil:
  "(case msg_content m of None \<Rightarrow> True | Some cs \<Rightarrow> \<forall>c \<in> set cs. \<not> spec_has_text_value c)
     \<Longrightarrow> spec_text_values m = []"
  by (auto simp: spec_text_values_def filter_empty_conv split: option.splits)

lemma spec_assistant_values_skip:
  "spec_text_values m = [] \<Longrightarrow>
     spec_assistant_values (ms1 @ m # ms2) = spec_assistant_values (ms1 @ ms2)"
  by (simp add: spec_assistant_values_def)

lemma spec_assistant_values_mem:
  "l \<in> set (spec_assistant_values msgs) \<Longrightarrow>
     \<exists>m \<in> set msgs. msg_role m = ''assistant'' \<and> l \<in> set (spec_text_values m)"
  by (auto simp: spec_assistant_values_def)

lemma collect_agents_eq: "collect_agents as acc = acc @ map make_agent_info as"
  by (induction as arbitrary: acc) simp_all

lemma agent_listing_returned:
  assumes "list_agents srv ep w = (res, w')"
    and "last (calls w') = List_agents"
    and "agents_list_agents srv (butlast (calls w')) = Inr agents"
  shows "res = Inr (map make_agent_info agents)"
  using assms
  by (auto simp: list_agents_def create_agent_client_def issue_def print_def
        Let_def butlast_append collect_agents_eq split: option.splits sum.splits prod.splits)

lemma example_list_agents:
  "list_agents example_service ''E'' start =
     (Inr (map make_agent_info example_agents),
      \<lparr>calls = [DefaultAzureCredential, AIProjectClient ''E'', List_agents], stdout = []\<rparr>)"
  by (simp add: list_agents_def create_agent_client_def issue_def
        example_service_def start_def collect_agents_eq)




lemma collect_choices_eq:
  "collect_choices cs acc =
     acc @ map (\<lambda>c. \<lparr>cd_message = \<lparr>cm_role = cm_role (ch_message c),
                                    cm_content = cm_content (ch_message c)\<rparr>\<rparr>) cs"
  by (induction cs arbitrary: acc) simp_all

lemma agent_request_failed:
  assumes "make_agent_inference_request srv ep aid p w = (Inl e, w')"
  shows "errors_raised (agent_call_error srv) (calls w) (drop (length (calls w)) (calls w')) = [e]
       \<and> agent_call_error srv (butlast (calls w')) (last (calls w')) = Some e
       \<and> last (stdout w') = Print (''Error: '' @ message e)"
  using assms
  by (simp add: make_agent_inference_request_def create_agent_client_def issue_def print_def
        Let_def butlast_append split: option.splits sum.splits prod.splits)
     (auto simp: butlast_append)

lemma agent_request_succeeded:
  assumes "make_agent_inference_request srv ep aid p w = (Inr r, w')"
  shows "errors_raised (agent_call_error srv) (calls w) (drop (length (calls w)) (calls w')) = []
       \<and> stdout w' = stdout w"
  using assms
  by (simp add: make_agent_inference_request_def create_agent_client_def issue_def print_def
        Let_def butlast_append split: option.splits sum.splits prod.splits)
     (auto simp: butlast_append)

lemma list_agents_failed:
  assumes "list_agents srv ep w = (Inl e, w')"
  shows "errors_raised (agent_call_error srv) (calls w) (drop (length (calls w)) (calls w')) = [e]
       \<and> agent_call_error srv (butlast (calls w')) (last (calls w')) = Some e
       \<and> last (stdout w') = Print (''Error: '' @ message e)"
  using assms
  by (simp add: list_agents_def create_agent_client_def issue_def print_def
        Let_def butlast_append split: option.splits sum.splits prod.splits)
     (auto simp: butlast_append)

lemma list_agents_succeeded:
  assumes "list_agents srv ep w = (Inr r, w')"
  shows "errors_raised (agent_call_error srv) (calls w) (drop (length (calls w)) (calls w')) = []
       \<and> stdout w' = stdout w
       \<and> calls w' = calls w @ [DefaultAzureCredential, AIProjectClient ep, List_agents]"
  using assms
  by (simp add: list_agents_def create_agent_client_def issue_def print_def
        Let_def butlast_append split: option.splits sum.splits prod.splits)
     (auto simp: butlast_append)

lemma list_agents_calls:
  assumes "list_agents srv ep w = (res, w')"
  shows "prefix (calls w') (calls w @ [DefaultAzureCredential, AIProjectClient ep, List_agents])"
  using assms
  by (simp add: list_agents_def create_agent_client_def issue_def print_def
        Let_def split: option.splits sum.splits prod.splits) auto

lemma inference_request_failed:
  assumes "make_inference_request srv ep key model p mt temp w = (Inl e, w')"
  shows "errors_raised (openai_call_error srv) (calls w) (drop (length (calls w)) (calls w')) = [e]
       \<and> openai_call_error srv (butlast (calls w')) (last (calls w')) = Some e
       \<and> last (stdout w') = Print (''Error: '' @ message e)"
  using assms
  by (simp add: make_inference_request_def issue_def print_def
        Let_def butlast_append split: option.splits sum.splits prod.splits)
     (auto simp: butlast_append)

lemma inference_request_succeeded:
  assumes "make_inference_request srv ep key model p mt temp w = (Inr r, w')"
  shows "errors_raised (openai_call_error srv) (calls w) (drop (length (calls w)) (calls w')) = []
       \<and> stdout w' = stdout w"
  using assms
  by (simp add: make_inference_request_def issue_def print_def
        Let_def butlast_append split: option.splits sum.splits prod.splits)
     (auto simp: butlast_append)

lemma list_models_failed:
  assumes "list_models srv ep key w = (Inl e, w')"
  shows "errors_raised (openai_call_error srv) (calls w) (drop (length (calls w)) (calls w')) = [e]
       \<and> openai_call_error srv (butlast (calls w')) (last (calls w')) = Some e
       \<and> last (stdout w') = Print (''Error: '' @ message e)"
  using assms
  by (simp add: list_models_def issue_def print_def
        Let_def butlast_append split: option.splits sum.splits prod.splits)
     (auto simp: butlast_append)

lemma list_models_succeeded:
  assumes "list_models srv ep key w = (Inr r, w')"
  shows "errors_raised (openai_call_error srv) (calls w) (drop (length (calls w)) (calls w')) = []
       \<and> stdout w' = stdout w
       \<and> calls w' = calls w @ [AzureOpenAI key ''2024-02-01'' ep]
       \<and> r = [[(''name'', ''gpt-4''), (''model'', ''gpt-4'')],
               [(''name'', ''gpt-3.5-turbo''), (''model'', ''gpt-3.5-turbo'')]]"
  using assms
  by (simp add: list_models_def issue_def print_def
        Let_def butlast_append split: option.splits sum.splits prod.splits)
     (auto simp: butlast_append)

lemma print_agents_eq:
  "print_agents as w = w\<lparr>stdout := stdout w @ concat (map spec_agent_lines as)\<rparr>"
  by (induction as arbitrary: w) (simp_all add: spec_agent_lines_def print_def Let_def)

lemma agent_main_errors:
  assumes "agent_main srv args w = (status, w')"
  shows "case errors_raised (agent_call_error srv) (calls w) (drop (length (calls w)) (calls w')) of
           [] \<Rightarrow> status = 0
         | e # es \<Rightarrow>
             es = []
           \<and> agent_call_error srv (butlast (calls w')) (last (calls w')) = Some e
           \<and> status = 1
           \<and> last (butlast (stdout w')) = Print (''Error: '' @ message e)
           \<and> last (stdout w') = Print (''Error: '' @ message e)"
proof (cases "arg_list_agents args")
  case True
  let ?w1 = "print ''Fetching available agents...'' w"
  obtain res w2 where L: "list_agents srv (arg_endpoint args) ?w1 = (res, w2)"
    by (rule prod.exhaust)
  have c1: "calls ?w1 = calls w" by (simp add: print_def)
  show ?thesis
  proof (cases res)
    case (Inl e)
    from assms True L Inl have st: "status = 1" and w': "w' = print (''Error: '' @ message e) w2"
      by (simp_all add: agent_main_def Let_def)
    from L Inl have "list_agents srv (arg_endpoint args) ?w1 = (Inl e, w2)" by simp
    from list_agents_failed [OF this] c1 show ?thesis
      by (simp add: w' st print_def)
  next
    case (Inr agents)
    from assms True L Inr have st: "status = 0" and w': "calls w' = calls w2"
      by (auto simp: agent_main_def Let_def print_def print_agents_eq)
    from L Inr have "list_agents srv (arg_endpoint args) ?w1 = (Inr agents, w2)" by simp
    from list_agents_succeeded [OF this, THEN conjunct1] c1 show ?thesis
      by (simp add: w' st)
  qed
next
  case False
  let ?w3 = "print (replicate 50 CHR ''-'') (print (''Prompt: '' @ arg_prompt args)
               (print (''Invoking agent: '' @ arg_agent_id args) w))"
  obtain res w4 where
    R: "make_agent_inference_request srv (arg_endpoint args) (arg_agent_id args) (arg_prompt args) ?w3
          = (res, w4)"
    by (rule prod.exhaust)
  have c3: "calls ?w3 = calls w" by (simp add: print_def)
  show ?thesis
  proof (cases res)
    case (Inl e)
    from assms False R Inl have st: "status = 1" and w': "w' = print (''Error: '' @ message e) w4"
      by (simp_all add: agent_main_def Let_def)
    from R Inl have "make_agent_inference_request srv (arg_endpoint args) (arg_agent_id args)
                       (arg_prompt args) ?w3 = (Inl e, w4)" by simp
    from agent_request_failed [OF this] c3 show ?thesis
      by (simp add: w' st print_def)
  next
    case (Inr response)
    from assms False R Inr have st: "status = 0" and w': "calls w' = calls w4"
      by (auto simp: agent_main_def Let_def print_def print_json_def split: if_splits)
    from R Inr have "make_agent_inference_request srv (arg_endpoint args) (arg_agent_id args)
                       (arg_prompt args) ?w3 = (Inr response, w4)" by simp
    from agent_request_succeeded [OF this, THEN conjunct1] c3 show ?thesis
      by (simp add: w' st)
  qed
qed

lemma inference_main_errors:
  assumes "inference_main srv args w = (status, w')"
  shows "case errors_raised (openai_call_error srv) (calls w) (drop (length (calls w)) (calls w')) of
           [] \<Rightarrow> status = 0
         | e # es \<Rightarrow>
             es = []
           \<and> openai_call_error srv (butlast (calls w')) (last (calls w')) = Some e
           \<and> status = 1
           \<and> last (butlast (stdout w')) = Print (''Error: '' @ message e)
           \<and> last (stdout w') = Print (''Error: '' @ message e)"
proof (cases "iarg_list_models args")
  case True
  let ?w1 = "print ''Fetching available models...'' w"
  obtain res w2 where L: "list_models srv (iarg_endpoint args) (iarg_api_key args) ?w1 = (res, w2)"
    by (rule prod.exhaust)
  have c1: "calls ?w1 = calls w" by (simp add: print_def)
  show ?thesis
  proof (cases res)
    case (Inl e)
    from assms True L Inl have st: "status = 1" and w': "w' = print (''Error: '' @ message e) w2"
      by (simp_all add: inference_main_def Let_def)
    from L Inl have "list_models srv (iarg_endpoint args) (iarg_api_key args) ?w1 = (Inl e, w2)"
      by simp
    from list_models_failed [OF this] c1 show ?thesis
      by (simp add: w' st print_def)
  next
    case (Inr models)
    from L Inr have L': "list_models srv (iarg_endpoint args) (iarg_api_key args) ?w1 = (Inr models, w2)"
      by simp
    note S = list_models_succeeded [OF L']
    from S have m: "models = [[(''name'', ''gpt-4''), (''model'', ''gpt-4'')],
                              [(''name'', ''gpt-3.5-turbo''), (''model'', ''gpt-3.5-turbo'')]]"
      by simp
    from assms True L' have st: "status = 0" and w': "calls w' = calls w2"
      by (auto simp: inference_main_def Let_def m getitem_def print_def)
    from S [THEN conjunct1] c1 show ?thesis
      by (simp add: w' st)
  qed
next
  case False
  let ?w3 = "print (replicate 50 CHR ''-'') (print (''Prompt: '' @ iarg_prompt args)
               (print (''Making inference request with model: '' @ iarg_model args) w))"
  obtain res w4 where
    R: "make_inference_request srv (iarg_endpoint args) (iarg_api_key args) (iarg_model args)
          (iarg_prompt args) (iarg_max_tokens args) (iarg_temperature args) ?w3 = (res, w4)"
    by (rule prod.exhaust)
  have c3: "calls ?w3 = calls w" by (simp add: print_def)
  show ?thesis
  proof (cases res)
    case (Inl e)
    from assms False R Inl have st: "status = 1" and w': "w' = print (''Error: '' @ message e) w4"
      by (simp_all add: inference_main_def Let_def)
    from R Inl have "make_inference_request srv (iarg_endpoint args) (iarg_api_key args)
          (iarg_model args) (iarg_prompt args) (iarg_max_tokens args) (iarg_temperature args) ?w3
            = (Inl e, w4)" by simp
    from inference_request_failed [OF this] c3 show ?thesis
      by (simp add: w' st print_def)
  next
    case (Inr response)
    from assms False R Inr have st: "status = 0" and w': "calls w' = calls w4"
      by (auto simp: inference_main_def Let_def print_def print_json_def
            split: if_splits list.splits option.splits)
    from R Inr have "make_inference_request srv (iarg_endpoint args) (iarg_api_key args)
          (iarg_model args) (iarg_prompt args) (iarg_max_tokens args) (iarg_temperature args) ?w3
            = (Inr response, w4)" by simp
    from inference_request_succeeded [OF this, THEN conjunct1] c3 show ?thesis
      by (simp add: w' st)
  qed
qed

lemma create_agent_client_propagates:
  "spec_client_wrapper_propagates (agent_call_error srv) w (create_agent_client srv ep w)"
  by (simp add: spec_client_wrapper_propagates_def create_agent_client_def issue_def print_def
        Let_def butlast_append split: option.splits)

lemma client_failure_reraised:
  assumes "create_agent_client srv ep w = (Inl e, w1)"
  shows "make_agent_inference_request srv ep aid p w = (Inl e, print (''Error: '' @ message e) w1)"
    and "list_agents srv ep w = (Inl e, print (''Error: '' @ message e) w1)"
  using assms by (simp_all add: make_agent_inference_request_def list_agents_def)

lemma wrapper_propagatesI:
  assumes "\<And>e w'. outcome = (Inl e, w') \<Longrightarrow>
              errors_raised answer (calls w) (drop (length (calls w)) (calls w')) = [e]
            \<and> answer (butlast (calls w')) (last (calls w')) = Some e
            \<and> last (stdout w') = Print (''Error: '' @ message e)"
    and "\<And>r w'. outcome = (Inr r, w') \<Longrightarrow>
              errors_raised answer (calls w) (drop (length (calls w)) (calls w')) = []"
  shows "spec_wrapper_propagates answer w outcome"
proof (cases outcome)
  case (Pair res w')
  show ?thesis
  proof (cases res)
    case (Inl e)
    with Pair assms(1) [of e w'] show ?thesis by (simp add: spec_wrapper_propagates_def)
  next
    case (Inr r)
    with Pair assms(2) [of r w'] show ?thesis by (simp add: spec_wrapper_propagates_def)
  qed
qed

lemma agent_main_listing:
  assumes "arg_list_agents args"
  shows "prefix (calls (snd (agent_main srv args w)))
           (calls w @ [DefaultAzureCredential, AIProjectClient (arg_endpoint args), List_agents])"
    and "list_agents srv (arg_endpoint args) (print ''Fetching available agents...'' w) = (Inr agents, w1)
         \<Longrightarrow> fst (agent_main srv args w) = 0
           \<and> stdout (snd (agent_main srv args w)) =
               stdout w @ [Print ''Fetching available agents...'', Print (newline # ''Available agents:'')]
                 @ concat (map spec_agent_lines agents)"
proof -
  let ?w1 = "print ''Fetching available agents...'' w"
  obtain res w2 where L: "list_agents srv (arg_endpoint args) ?w1 = (res, w2)"
    by (rule prod.exhaust)
  have c1: "calls ?w1 = calls w" by (simp add: print_def)
  from list_agents_calls [OF L] c1
  have p: "prefix (calls w2)
             (calls w @ [DefaultAzureCredential, AIProjectClient (arg_endpoint args), List_agents])"
    by simp
  have "calls (snd (agent_main srv args w)) = calls w2"
    using assms L by (cases res) (simp_all add: agent_main_def Let_def print_def print_agents_eq)
  with p show "prefix (calls (snd (agent_main srv args w)))
           (calls w @ [DefaultAzureCredential, AIProjectClient (arg_endpoint args), List_agents])"
    by simp
next
  let ?w1 = "print ''Fetching available agents...'' w"
  assume L: "list_agents srv (arg_endpoint args) ?w1 = (Inr agents, w1)"
  from list_agents_succeeded [OF L] have "stdout w1 = stdout ?w1" by simp
  then show "fst (agent_main srv args w) = 0
           \<and> stdout (snd (agent_main srv args w)) =
               stdout w @ [Print ''Fetching available agents...'', Print (newline # ''Available agents:'')]
                 @ concat (map spec_agent_lines agents)"
    using assms L by (simp add: agent_main_def Let_def print_def print_agents_eq)
qed

lemma inference_main_listing:
  assumes "iarg_list_models args"
  shows "calls (snd (inference_main srv args w)) =
           calls w @ [AzureOpenAI (iarg_api_key args) ''2024-02-01'' (iarg_endpoint args)]"
    and "list_models srv (iarg_endpoint args) (iarg_api_key args)
           (print ''Fetching available models...'' w) = (Inr models, w1)
         \<Longrightarrow> fst (inference_main srv args w) = 0
           \<and> stdout (snd (inference_main srv args w)) =
               stdout w @ [Print ''Fetching available models...'', Print (newline # ''Available models:''),
                           Print ''- gpt-4 (gpt-4)'', Print ''- gpt-3.5-turbo (gpt-3.5-turbo)'']"
proof -
  show "calls (snd (inference_main srv args w)) =
           calls w @ [AzureOpenAI (iarg_api_key args) ''2024-02-01'' (iarg_endpoint args)]"
    using assms
    by (simp add: inference_main_def list_models_def Let_def print_def issue_def getitem_def
          split: option.splits)
next
  let ?w1 = "print ''Fetching available models...'' w"
  assume L: "list_models srv (iarg_endpoint args) (iarg_api_key args) ?w1 = (Inr models, w1)"
  note S = list_models_succeeded [OF L]
  from S have m: "models = [[(''name'', ''gpt-4''), (''model'', ''gpt-4'')],
                            [(''name'', ''gpt-3.5-turbo''), (''model'', ''gpt-3.5-turbo'')]]"
    by simp
  from S have "stdout w1 = stdout ?w1" by simp
  then show "fst (inference_main srv args w) = 0
           \<and> stdout (snd (inference_main srv args w)) =
               stdout w @ [Print ''Fetching available models...'', Print (newline # ''Available models:''),
                           Print ''- gpt-4 (gpt-4)'', Print ''- gpt-3.5-turbo (gpt-3.5-turbo)'']"
    using assms L by (simp add: inference_main_def Let_def m getitem_def print_def)
qed

section \<open>The claims\<close>

text \<open>
  C1. Whenever the listing call of \<open>make_agent_inference_request\<close> is reached and returns
  a sequence of messages, the function returns a result whose \<open>agent_response\<close> is the
  newline-join, in encounter order, of every text fragment value of the messages whose
  role is \<open>assistant\<close>; it is the empty string when no message has that role.
\<close>

theorem agent_response_is_join:
  assumes "make_agent_inference_request srv ep aid p w = (res, w')"
    and "last (calls w') = Messages_list tid"
    and "messages_list srv (butlast (calls w')) tid = Inr msgs"
  shows "\<exists>r. res = Inr r
           \<and> agent_response r = spec_agent_response msgs
           \<and> ((\<forall>m \<in> set msgs. msg_role m \<noteq> ''assistant'') \<longrightarrow> agent_response r = [])"
proof -
  from listing_returned [OF assms] obtain t rn where r: "res = Inr (build_result t rn msgs)"
    by blast
  have none: "(\<forall>m \<in> set msgs. msg_role m \<noteq> ''assistant'') \<Longrightarrow> spec_agent_response msgs = []"
    by (simp add: spec_agent_response_def spec_assistant_values_def)
  show ?thesis
    using r none by (simp add: build_result_eq)
qed

theorem agent_response_is_join_witness:
  "last (calls (snd (make_agent_inference_request example_service ''E'' ''A123'' ''hi'' start)))
     = Messages_list ''T1''
   \<and> messages_list example_service
        (butlast (calls (snd (make_agent_inference_request example_service ''E'' ''A123'' ''hi'' start))))
        ''T1'' = Inr example_messages
   \<and> (\<exists>r. fst (make_agent_inference_request example_service ''E'' ''A123'' ''hi'' start) = Inr r
          \<and> agent_response r = ''Hello'' @ [newline] @ ''there'')"
proof -
  let ?run = "make_agent_inference_request example_service ''E'' ''A123'' ''hi'' start"
  have h1: "?run = (fst ?run, snd ?run)" by simp
  have h2: "last (calls (snd ?run)) = Messages_list ''T1''"
    by (simp add: example_run)
  have h3: "messages_list example_service (butlast (calls (snd ?run))) ''T1'' = Inr example_messages"
    by (simp add: example_service_def)
  have v: "spec_agent_response example_messages = ''Hello'' @ [newline] @ ''there''"
    by (simp add: spec_agent_response_def spec_assistant_values_def example_messages_def
        spec_text_values_def spec_has_text_value_def spec_fragment_value_def)
  from agent_response_is_join [OF h1 h2 h3] v h2 h3 show ?thesis by auto
qed

text \<open>
  C2. \<open>make_inference_request\<close> never issues more than one chat-completion request, and
  issues exactly one as soon as the client has been constructed: its message list is the
  single entry \<^verbatim>\<open>{role: "user", content: prompt}\<close> and its model, max_tokens and
  temperature are the arguments as given. When the request returns a response, the
  function returns the dictionary with the response's id and model and, for each choice of
  the response, in order, one entry holding the role and content of the choice's message.
\<close>

theorem one_completion_request:
  assumes "make_inference_request srv ep key model p mt temp w = (res, w')"
  shows "prefix (calls w')
           (calls w @ [AzureOpenAI key ''2024-02-01'' ep,
                       Chat_completions_create model [[(''role'', ''user''), (''content'', p)]] mt temp])
       \<and> (azure_openai srv (calls w) key ''2024-02-01'' ep = None \<longrightarrow>
            calls w' =
              calls w @ [AzureOpenAI key ''2024-02-01'' ep,
                         Chat_completions_create model [[(''role'', ''user''), (''content'', p)]] mt temp])
       \<and> (\<forall>response.
             azure_openai srv (calls w) key ''2024-02-01'' ep = None
           \<and> chat_completions_create srv (calls w @ [AzureOpenAI key ''2024-02-01'' ep]) model
                [[(''role'', ''user''), (''content'', p)]] mt temp = Inr response
           \<longrightarrow> res =
                 Inr \<lparr>res_id = c_id response,
                      res_model = c_model response,
                      res_choices =
                        map (\<lambda>c. \<lparr>cd_message = \<lparr>cm_role = cm_role (ch_message c),
                                                      cm_content = cm_content (ch_message c)\<rparr>\<rparr>)
                          (c_choices response)\<rparr>)"
proof (cases "azure_openai srv (calls w) key ''2024-02-01'' ep")
  case (Some e)
  with assms show ?thesis
    by (simp add: make_inference_request_def issue_def print_def Let_def) auto
next
  case None
  show ?thesis
  proof (cases "chat_completions_create srv (calls w @ [AzureOpenAI key ''2024-02-01'' ep]) model
                  [[(''role'', ''user''), (''content'', p)]] mt temp")
    case (Inl e)
    with assms None show ?thesis
      by (simp add: make_inference_request_def issue_def print_def Let_def user_messages_def) auto
  next
    case (Inr response)
    with assms None show ?thesis
      by (simp add: make_inference_request_def issue_def print_def Let_def user_messages_def
            collect_choices_eq) auto
  qed
qed

theorem one_completion_request_witness:
  "azure_openai example_openai (calls (start :: openai_world)) ''K'' ''2024-02-01''
     ''https://x.openai.azure.com'' = None
   \<and> chat_completions_create example_openai
       (calls (start :: openai_world) @ [AzureOpenAI ''K'' ''2024-02-01'' ''https://x.openai.azure.com''])
       ''gpt-4'' [[(''role'', ''user''), (''content'', ''ping'')]] 5 0 = Inr example_completion
   \<and> calls (snd (make_inference_request example_openai ''https://x.openai.azure.com'' ''K''
                 ''gpt-4'' ''ping'' 5 0 start)) =
       [AzureOpenAI ''K'' ''2024-02-01'' ''https://x.openai.azure.com'',
        Chat_completions_create ''gpt-4'' [[(''role'', ''user''), (''content'', ''ping'')]] 5 0]
   \<and> fst (make_inference_request example_openai ''https://x.openai.azure.com'' ''K''
            ''gpt-4'' ''ping'' 5 0 start) =
       Inr \<lparr>res_id = ''chatcmpl-1'', res_model = ''gpt-4'',
            res_choices = [\<lparr>cd_message = \<lparr>cm_role = ''assistant'', cm_content = Some ''pong''\<rparr>\<rparr>,
                           \<lparr>cd_message = \<lparr>cm_role = ''assistant'', cm_content = None\<rparr>\<rparr>]\<rparr>"
proof -
  let ?ep = "''https://x.openai.azure.com''"
  let ?run = "make_inference_request example_openai ?ep ''K'' ''gpt-4'' ''ping'' 5 0 start"
  let ?msgs = "[[(''role'', ''user''), (''content'', ''ping'')]]"
  have h1: "?run = (fst ?run, snd ?run)" by simp
  have h2: "azure_openai example_openai (calls (start :: openai_world)) ''K'' ''2024-02-01'' ?ep = None"
    by (simp add: example_openai_def)
  have h3: "chat_completions_create example_openai
              (calls (start :: openai_world) @ [AzureOpenAI ''K'' ''2024-02-01'' ?ep])
              ''gpt-4'' ?msgs 5 0 = Inr example_completion"
    by (simp add: example_openai_def)
  note T = one_completion_request [OF h1]
  from T have a: "azure_openai example_openai (calls (start :: openai_world)) ''K'' ''2024-02-01'' ?ep = None
        \<longrightarrow> calls (snd ?run) =
            calls (start :: openai_world) @ [AzureOpenAI ''K'' ''2024-02-01'' ?ep,
                           Chat_completions_create ''gpt-4'' ?msgs 5 0]"
    by (rule conjunct1 [OF conjunct2])
  from a [rule_format, OF h2] have c: "calls (snd ?run) =
      [AzureOpenAI ''K'' ''2024-02-01'' ?ep, Chat_completions_create ''gpt-4'' ?msgs 5 0]"
    by (simp add: start_def)
  from T have b: "\<forall>response.
             azure_openai example_openai (calls (start :: openai_world)) ''K'' ''2024-02-01'' ?ep = None
           \<and> chat_completions_create example_openai
                (calls (start :: openai_world) @ [AzureOpenAI ''K'' ''2024-02-01'' ?ep]) ''gpt-4''
                ?msgs 5 0 = Inr response
           \<longrightarrow> fst ?run =
                 Inr \<lparr>res_id = c_id response,
                      res_model = c_model response,
                      res_choices =
                        map (\<lambda>c. \<lparr>cd_message = \<lparr>cm_role = cm_role (ch_message c),
                                                      cm_content = cm_content (ch_message c)\<rparr>\<rparr>)
                          (c_choices response)\<rparr>"
    by (rule conjunct2 [OF conjunct2])
  from b [rule_format, OF conjI [OF h2 h3]]
  have r: "fst ?run =
       Inr \<lparr>res_id = ''chatcmpl-1'', res_model = ''gpt-4'',
            res_choices = [\<lparr>cd_message = \<lparr>cm_role = ''assistant'', cm_content = Some ''pong''\<rparr>\<rparr>,
                           \<lparr>cd_message = \<lparr>cm_role = ''assistant'', cm_content = None\<rparr>\<rparr>]\<rparr>"
    by (simp add: example_completion_def)
  from h2 h3 c r show ?thesis by (intro conjI)
qed





text \<open>
  C5. Whenever the listing call is reached and returns a sequence of messages, the
  function returns a result and raises nothing, whatever the fragments lack; the
  normalized content of each message is the list of the values of those of its fragments
  that carry a text value, in order, and a fragment with no \<^verbatim>\<open>text\<close> attribute or with a
  text object with no \<^verbatim>\<open>value\<close> attribute is left out.
\<close>

theorem fragments_without_value_are_omitted:
  assumes "make_agent_inference_request srv ep aid p w = (res, w')"
    and "last (calls w') = Messages_list tid"
    and "messages_list srv (butlast (calls w')) tid = Inr msgs"
  shows "\<exists>r. res = Inr r
           \<and> length (messages r) = length msgs
           \<and> (\<forall>i < length msgs.
                 md_content (messages r ! i) =
                   (case msg_content (msgs ! i) of
                      None \<Rightarrow> []
                    | Some cs \<Rightarrow> map (the \<circ> spec_fragment_value) (filter spec_has_text_value cs)))"
proof -
  from listing_returned [OF assms] obtain t rn where r: "res = Inr (build_result t rn msgs)"
    by blast
  show ?thesis
    using r by (simp add: build_result_eq spec_message_dict_def spec_text_values_def)
qed

theorem fragments_without_value_are_omitted_witness:
  "last (calls (snd (make_agent_inference_request example_service ''E'' ''A123'' ''hi'' start)))
     = Messages_list ''T1''
   \<and> messages_list example_service
        (butlast (calls (snd (make_agent_inference_request example_service ''E'' ''A123'' ''hi'' start))))
        ''T1'' = Inr example_messages
   \<and> (\<exists>r. fst (make_agent_inference_request example_service ''E'' ''A123'' ''hi'' start) = Inr r
          \<and> md_content (messages r ! 0) = [''Hello'', ''there'']
          \<and> md_content (messages r ! 1) = [])"
proof -
  let ?run = "make_agent_inference_request example_service ''E'' ''A123'' ''hi'' start"
  have h1: "?run = (fst ?run, snd ?run)" by simp
  have h2: "last (calls (snd ?run)) = Messages_list ''T1''"
    by (simp add: example_run)
  have h3: "messages_list example_service (butlast (calls (snd ?run))) ''T1'' = Inr example_messages"
    by (simp add: example_service_def)
  from fragments_without_value_are_omitted [OF h1 h2 h3]
  obtain r where r: "fst ?run = Inr r"
    and c: "\<forall>i < length example_messages.
                 md_content (messages r ! i) =
                   (case msg_content (example_messages ! i) of
                      None \<Rightarrow> []
                    | Some cs \<Rightarrow> map (the \<circ> spec_fragment_value) (filter spec_has_text_value cs))"
    by auto
  have l: "length example_messages = 4"
    by (simp add: example_messages_def)
  have c0: "md_content (messages r ! 0) = [''Hello'', ''there'']"
    using c [rule_format, of 0] l
    by (simp add: example_messages_def spec_has_text_value_def spec_fragment_value_def)
  have c1: "md_content (messages r ! 1) = []"
    using c [rule_format, of 1] l
    by (simp add: example_messages_def spec_has_text_value_def spec_fragment_value_def)
  from r c0 c1 h2 h3 show ?thesis by auto
qed

text \<open>
  C6. Whenever the agent-listing call of \<open>list_agents\<close> is reached and returns a sequence
  of agents, \<open>list_agents\<close> returns, raising nothing, one entry per agent, in order; the
  entry has the agent's id, the agent's name or \<open>Unknown\<close> when the agent has no name
  attribute, and the agent's description or the empty string when the agent has no
  description attribute.
\<close>

theorem list_agents_defaults:
  assumes "list_agents srv ep w = (res, w')"
    and "last (calls w') = List_agents"
    and "agents_list_agents srv (butlast (calls w')) = Inr agents"
  shows "\<exists>r. res = Inr r
           \<and> length r = length agents
           \<and> (\<forall>i < length agents.
                  info_id (r ! i) = a_id (agents ! i)
                \<and> info_name (r ! i) =
                    (case a_name (agents ! i) of None \<Rightarrow> ''Unknown'' | Some n \<Rightarrow> n)
                \<and> info_description (r ! i) =
                    (case a_description (agents ! i) of None \<Rightarrow> [] | Some d \<Rightarrow> d))"
proof -
  from agent_listing_returned [OF assms] have "res = Inr (map make_agent_info agents)" .
  then show ?thesis
    by (auto simp: make_agent_info_def split: option.splits)
qed

theorem list_agents_defaults_witness:
  "last (calls (snd (list_agents example_service ''E'' start))) = List_agents
   \<and> agents_list_agents example_service (butlast (calls (snd (list_agents example_service ''E'' start))))
       = Inr example_agents
   \<and> fst (list_agents example_service ''E'' start) =
       Inr [\<lparr>info_id = ''A123'', info_name = ''helper'', info_description = ''answers''\<rparr>,
            \<lparr>info_id = ''A124'', info_name = ''Unknown'', info_description = []\<rparr>]"
proof -
  let ?run = "list_agents example_service ''E'' start"
  have h1: "?run = (fst ?run, snd ?run)" by simp
  have h2: "last (calls (snd ?run)) = List_agents"
    by (simp add: example_list_agents)
  have h3: "agents_list_agents example_service (butlast (calls (snd ?run))) = Inr example_agents"
    by (simp add: example_service_def)
  from list_agents_defaults [OF h1 h2 h3]
  obtain r where r: "fst ?run = Inr r" and l: "length r = length example_agents"
    and c: "\<forall>i < length example_agents.
                  info_id (r ! i) = a_id (example_agents ! i)
                \<and> info_name (r ! i) =
                    (case a_name (example_agents ! i) of None \<Rightarrow> ''Unknown'' | Some n \<Rightarrow> n)
                \<and> info_description (r ! i) =
                    (case a_description (example_agents ! i) of None \<Rightarrow> [] | Some d \<Rightarrow> d)"
    by blast
  have n: "length example_agents = 2" by (simp add: example_agents_def)
  from l n obtain x y where xy: "r = [x, y]"
    by (cases r; cases "tl r"; cases "tl (tl r)") auto
  from c [rule_format, of 0] n xy
  have x: "x = \<lparr>info_id = ''A123'', info_name = ''helper'', info_description = ''answers''\<rparr>"
    by (simp add: example_agents_def)
  from c [rule_format, of 1] n xy
  have y: "y = \<lparr>info_id = ''A124'', info_name = ''Unknown'', info_description = []\<rparr>"
    by (simp add: example_agents_def)
  from r xy x y h2 h3 show ?thesis by simp
qed

text \<open>
  C7. With \<^verbatim>\<open>--list-agents\<close> the agent tool only constructs the client and lists the agents:
  its calls are an initial part of those three, so no thread, message or run request is
  made; when the listing succeeds it exits with status 0, having printed the two header
  lines and the lines of the listed agents. With \<^verbatim>\<open>--list-models\<close> the direct tool only
  constructs the client, so no completion request is made; when the listing succeeds
  it exits with status 0, having printed the two header lines and the two model lines.
\<close>

theorem listing_flags_skip_inference:
  assumes "arg_list_agents args" and "iarg_list_models oargs"
  shows "prefix (calls (snd (agent_main srv args w)))
           (calls w @ [DefaultAzureCredential, AIProjectClient (arg_endpoint args), List_agents])
       \<and> (\<forall>agents w1.
             list_agents srv (arg_endpoint args) (print ''Fetching available agents...'' w)
               = (Inr agents, w1)
             \<longrightarrow> fst (agent_main srv args w) = 0
               \<and> stdout (snd (agent_main srv args w)) =
                   stdout w @ [Print ''Fetching available agents...'',
                               Print (newline # ''Available agents:'')]
                     @ concat (map spec_agent_lines agents))
       \<and> calls (snd (inference_main osrv oargs ow)) =
           calls ow @ [AzureOpenAI (iarg_api_key oargs) ''2024-02-01'' (iarg_endpoint oargs)]
       \<and> (\<forall>models w1.
             list_models osrv (iarg_endpoint oargs) (iarg_api_key oargs)
               (print ''Fetching available models...'' ow) = (Inr models, w1)
             \<longrightarrow> fst (inference_main osrv oargs ow) = 0
               \<and> stdout (snd (inference_main osrv oargs ow)) =
                   stdout ow @ [Print ''Fetching available models...'',
                                Print (newline # ''Available models:''),
                                Print ''- gpt-4 (gpt-4)'', Print ''- gpt-3.5-turbo (gpt-3.5-turbo)''])"
proof -
  have a1: "prefix (calls (snd (agent_main srv args w)))
           (calls w @ [DefaultAzureCredential, AIProjectClient (arg_endpoint args), List_agents])"
    by (rule agent_main_listing(1) [OF assms(1)])
  have a2: "\<forall>agents w1.
             list_agents srv (arg_endpoint args) (print ''Fetching available agents...'' w)
               = (Inr agents, w1)
             \<longrightarrow> fst (agent_main srv args w) = 0
               \<and> stdout (snd (agent_main srv args w)) =
                   stdout w @ [Print ''Fetching available agents...'',
                               Print (newline # ''Available agents:'')]
                     @ concat (map spec_agent_lines agents)"
    by (intro allI impI) (rule agent_main_listing(2) [OF assms(1)])
  have o1: "calls (snd (inference_main osrv oargs ow)) =
           calls ow @ [AzureOpenAI (iarg_api_key oargs) ''2024-02-01'' (iarg_endpoint oargs)]"
    by (rule inference_main_listing(1) [OF assms(2)])
  have o2: "\<forall>models w1.
             list_models osrv (iarg_endpoint oargs) (iarg_api_key oargs)
               (print ''Fetching available models...'' ow) = (Inr models, w1)
             \<longrightarrow> fst (inference_main osrv oargs ow) = 0
               \<and> stdout (snd (inference_main osrv oargs ow)) =
                   stdout ow @ [Print ''Fetching available models...'',
                                Print (newline # ''Available models:''),
                                Print ''- gpt-4 (gpt-4)'', Print ''- gpt-3.5-turbo (gpt-3.5-turbo)'']"
    by (intro allI impI) (rule inference_main_listing(2) [OF assms(2)])
  from a1 a2 o1 o2 show ?thesis by (intro conjI)
qed

theorem listing_flags_skip_inference_witness:
  "arg_list_agents (example_args\<lparr>arg_list_agents := True\<rparr>)
   \<and> iarg_list_models (example_inference_args\<lparr>iarg_list_models := True\<rparr>)
   \<and> agent_main example_service (example_args\<lparr>arg_list_agents := True\<rparr>) start =
       (0, \<lparr>calls = [DefaultAzureCredential, AIProjectClient ''E'', List_agents],
            stdout = [Print ''Fetching available agents...'',
                      Print (newline # ''Available agents:''),
                      Print ''- helper (ID: A123)'',
                      Print ''  Description: answers'',
                      Print ''- Unknown (ID: A124)'']\<rparr>)
   \<and> inference_main example_openai (example_inference_args\<lparr>iarg_list_models := True\<rparr>) start =
       (0, \<lparr>calls = [AzureOpenAI ''K'' ''2024-02-01'' ''https://x.openai.azure.com''],
            stdout = [Print ''Fetching available models...'',
                      Print (newline # ''Available models:''),
                      Print ''- gpt-4 (gpt-4)'', Print ''- gpt-3.5-turbo (gpt-3.5-turbo)'']\<rparr>)"
proof -
  let ?args = "example_args\<lparr>arg_list_agents := True\<rparr>"
  let ?oargs = "example_inference_args\<lparr>iarg_list_models := True\<rparr>"
  let ?a = "agent_main example_service ?args start"
  let ?o = "inference_main example_openai ?oargs start"
  let ?w1 = "\<lparr>calls = [DefaultAzureCredential, AIProjectClient ''E'', List_agents],
              stdout = [Print ''Fetching available agents...'']\<rparr> :: agent_world"
  let ?ow1 = "\<lparr>calls = [AzureOpenAI ''K'' ''2024-02-01'' ''https://x.openai.azure.com''],
               stdout = [Print ''Fetching available models...'']\<rparr> :: openai_world"
  have h1: "arg_list_agents ?args" by (simp add: example_args_def)
  have h2: "iarg_list_models ?oargs" by (simp add: example_inference_args_def)
  note T = listing_flags_skip_inference [OF h1 h2, of example_service start example_openai start]
  have ep: "arg_endpoint ?args = ''E''" by (simp add: example_args_def)
  have oep: "iarg_endpoint ?oargs = ''https://x.openai.azure.com''" "iarg_api_key ?oargs = ''K''"
    by (simp_all add: example_inference_args_def)
  have la: "list_agents example_service (arg_endpoint ?args) (print ''Fetching available agents...'' start)
              = (Inr (map make_agent_info example_agents), ?w1)"
    by (simp add: ep list_agents_def create_agent_client_def issue_def print_def
          example_service_def start_def collect_agents_eq)
  have lm: "list_models example_openai (iarg_endpoint ?oargs) (iarg_api_key ?oargs)
              (print ''Fetching available models...'' start)
              = (Inr [[(''name'', ''gpt-4''), (''model'', ''gpt-4'')],
                      [(''name'', ''gpt-3.5-turbo''), (''model'', ''gpt-3.5-turbo'')]], ?ow1)"
    by (simp add: oep list_models_def issue_def print_def example_openai_def start_def)
  from T have ca: "prefix (calls (snd ?a))
       (calls (start :: agent_world) @ [DefaultAzureCredential, AIProjectClient (arg_endpoint ?args), List_agents])"
    by (rule conjunct1)
  from T have "\<forall>agents w1.
             list_agents example_service (arg_endpoint ?args) (print ''Fetching available agents...'' start)
               = (Inr agents, w1)
             \<longrightarrow> fst ?a = 0
               \<and> stdout (snd ?a) =
                   stdout (start :: agent_world) @ [Print ''Fetching available agents...'',
                               Print (newline # ''Available agents:'')]
                     @ concat (map spec_agent_lines agents)"
    by (rule conjunct1 [OF conjunct2])
  from this [rule_format, OF la]
  have sa: "fst ?a = 0"
    and oa: "stdout (snd ?a) = [Print ''Fetching available agents...'',
                      Print (newline # ''Available agents:''),
                      Print ''- helper (ID: A123)'',
                      Print ''  Description: answers'',
                      Print ''- Unknown (ID: A124)'']"
    by (simp_all add: start_def spec_agent_lines_def make_agent_info_def example_agents_def)
  have ca': "calls (snd ?a) = [DefaultAzureCredential, AIProjectClient ''E'', List_agents]"
    using la by (simp add: agent_main_def print_agents_eq print_def)
  from T have co: "calls (snd ?o) =
           calls (start :: openai_world) @ [AzureOpenAI (iarg_api_key ?oargs) ''2024-02-01'' (iarg_endpoint ?oargs)]"
    by (rule conjunct1 [OF conjunct2 [OF conjunct2]])
  from T have "\<forall>models w1.
             list_models example_openai (iarg_endpoint ?oargs) (iarg_api_key ?oargs)
               (print ''Fetching available models...'' start) = (Inr models, w1)
             \<longrightarrow> fst ?o = 0
               \<and> stdout (snd ?o) =
                   stdout (start :: openai_world) @ [Print ''Fetching available models...'',
                                Print (newline # ''Available models:''),
                                Print ''- gpt-4 (gpt-4)'', Print ''- gpt-3.5-turbo (gpt-3.5-turbo)'']"
    by (rule conjunct2 [OF conjunct2 [OF conjunct2]])
  from this [rule_format, OF lm]
  have so: "fst ?o = 0"
    and oo: "stdout (snd ?o) = [Print ''Fetching available models...'',
                                Print (newline # ''Available models:''),
                                Print ''- gpt-4 (gpt-4)'', Print ''- gpt-3.5-turbo (gpt-3.5-turbo)'']"
    by (simp_all add: start_def)
  from co have co': "calls (snd ?o) = [AzureOpenAI ''K'' ''2024-02-01'' ''https://x.openai.azure.com'']"
    by (simp add: oep start_def)
  have a: "?a = (0, \<lparr>calls = [DefaultAzureCredential, AIProjectClient ''E'', List_agents],
            stdout = [Print ''Fetching available agents...'',
                      Print (newline # ''Available agents:''),
                      Print ''- helper (ID: A123)'',
                      Print ''  Description: answers'',
                      Print ''- Unknown (ID: A124)'']\<rparr>)"
    using sa oa ca' by (simp add: prod_eq_iff)
  have o: "?o = (0, \<lparr>calls = [AzureOpenAI ''K'' ''2024-02-01'' ''https://x.openai.azure.com''],
            stdout = [Print ''Fetching available models...'',
                      Print (newline # ''Available models:''),
                      Print ''- gpt-4 (gpt-4)'', Print ''- gpt-3.5-turbo (gpt-3.5-turbo)'']\<rparr>)"
    using so oo co' by (simp add: prod_eq_iff)
  from h1 h2 a o show ?thesis by (intro conjI)
qed

text \<open>
  C8. Each wrapper of either tool (\<open>create_agent_client\<close>, \<open>make_agent_inference_request\<close>,
  \<open>list_agents\<close>, \<open>make_inference_request\<close>, \<open>list_models\<close>) and each \<open>main\<close> propagates
  errors: an error raised while constructing the client or by a remote call stops the
  wrapper at that call (no later call and no second attempt is in the log), the wrapper
  prints its message and raises the same error; \<open>main\<close> prints the message for that same
  error again and the process exits with status 1. The message of \<open>create_agent_client\<close>
  is \<open>Error creating client: \<close> followed by the error's text, and the wrapper that called
  it catches the error it raises, prints its own message after that one and raises the
  same error again. The message of every other wrapper and of \<open>main\<close> is \<open>Error: \<close>
  followed by the error's text. The exit status is 0 when no call raised.
\<close>

theorem errors_are_propagated:
  "spec_client_wrapper_propagates (agent_call_error srv) w (create_agent_client srv ep w)
   \<and> (\<forall>e w1. create_agent_client srv ep w = (Inl e, w1) \<longrightarrow>
          make_agent_inference_request srv ep aid p w = (Inl e, print (''Error: '' @ message e) w1)
        \<and> list_agents srv ep w = (Inl e, print (''Error: '' @ message e) w1))
   \<and> spec_wrapper_propagates (agent_call_error srv) w (make_agent_inference_request srv ep aid p w)
   \<and> spec_wrapper_propagates (agent_call_error srv) w (list_agents srv ep w)
   \<and> spec_main_propagates (agent_call_error srv) w (agent_main srv args w)
   \<and> spec_wrapper_propagates (openai_call_error osrv) ow
       (make_inference_request osrv oep key model op mt temp ow)
   \<and> spec_wrapper_propagates (openai_call_error osrv) ow (list_models osrv oep key ow)
   \<and> spec_main_propagates (openai_call_error osrv) ow (inference_main osrv oargs ow)"
proof (intro conjI)
  show "spec_client_wrapper_propagates (agent_call_error srv) w (create_agent_client srv ep w)"
    by (rule create_agent_client_propagates)
  show "\<forall>e w1. create_agent_client srv ep w = (Inl e, w1) \<longrightarrow>
          make_agent_inference_request srv ep aid p w = (Inl e, print (''Error: '' @ message e) w1)
        \<and> list_agents srv ep w = (Inl e, print (''Error: '' @ message e) w1)"
  proof (intro allI impI)
    fix e w1
    assume c: "create_agent_client srv ep w = (Inl e, w1)"
    from client_failure_reraised(1) [OF c] client_failure_reraised(2) [OF c]
    show "make_agent_inference_request srv ep aid p w = (Inl e, print (''Error: '' @ message e) w1)
        \<and> list_agents srv ep w = (Inl e, print (''Error: '' @ message e) w1)"
      by (rule conjI)
  qed
  show "spec_wrapper_propagates (agent_call_error srv) w (make_agent_inference_request srv ep aid p w)"
    by (rule wrapper_propagatesI)
       (erule agent_request_failed, erule agent_request_succeeded [THEN conjunct1])
  show "spec_wrapper_propagates (agent_call_error srv) w (list_agents srv ep w)"
    by (rule wrapper_propagatesI)
       (erule list_agents_failed, erule list_agents_succeeded [THEN conjunct1])
  show "spec_wrapper_propagates (openai_call_error osrv) ow
          (make_inference_request osrv oep key model op mt temp ow)"
    by (rule wrapper_propagatesI)
       (erule inference_request_failed, erule inference_request_succeeded [THEN conjunct1])
  show "spec_wrapper_propagates (openai_call_error osrv) ow (list_models osrv oep key ow)"
    by (rule wrapper_propagatesI)
       (erule list_models_failed, erule list_models_succeeded [THEN conjunct1])
  obtain status w' where a: "agent_main srv args w = (status, w')"
    by (rule prod.exhaust)
  from agent_main_errors [OF a] a
  show "spec_main_propagates (agent_call_error srv) w (agent_main srv args w)"
    by (simp add: spec_main_propagates_def)
  obtain ostatus ow' where o: "inference_main osrv oargs ow = (ostatus, ow')"
    by (rule prod.exhaust)
  from inference_main_errors [OF o] o
  show "spec_main_propagates (openai_call_error osrv) ow (inference_main osrv oargs ow)"
    by (simp add: spec_main_propagates_def)
qed

theorem errors_are_propagated_witness:
  "create_agent_client unreachable_service ''E'' start =
     (Inl (Exception ''bad endpoint''),
      \<lparr>calls = [DefaultAzureCredential, AIProjectClient ''E''],
       stdout = [Print ''Error creating client: bad endpoint'']\<rparr>)
   \<and> make_agent_inference_request unreachable_service ''E'' ''A123'' ''hi'' start =
     (Inl (Exception ''bad endpoint''),
      \<lparr>calls = [DefaultAzureCredential, AIProjectClient ''E''],
       stdout = [Print ''Error creating client: bad endpoint'', Print ''Error: bad endpoint'']\<rparr>)
   \<and> list_agents unreachable_service ''E'' start =
     (Inl (Exception ''bad endpoint''),
      \<lparr>calls = [DefaultAzureCredential, AIProjectClient ''E''],
       stdout = [Print ''Error creating client: bad endpoint'', Print ''Error: bad endpoint'']\<rparr>)
   \<and> errors_raised (agent_call_error unreachable_service) []
       (calls (snd (agent_main unreachable_service example_args start))) = [Exception ''bad endpoint'']
   \<and> fst (agent_main unreachable_service example_args start) = 1
   \<and> last (butlast (stdout (snd (agent_main unreachable_service example_args start))))
       = Print ''Error: bad endpoint''
   \<and> last (stdout (snd (agent_main unreachable_service example_args start)))
       = Print ''Error: bad endpoint''
   \<and> errors_raised (agent_call_error failing_service) []
       (calls (snd (agent_main failing_service example_args start))) = [Exception ''boom'']
   \<and> fst (agent_main failing_service example_args start) = 1
   \<and> last (butlast (stdout (snd (agent_main failing_service example_args start)))) = Print ''Error: boom''
   \<and> last (stdout (snd (agent_main failing_service example_args start))) = Print ''Error: boom''
   \<and> errors_raised (openai_call_error failing_openai) []
       (calls (snd (inference_main failing_openai example_inference_args start)))
       = [Exception ''bad endpoint'']
   \<and> fst (inference_main failing_openai example_inference_args start) = 1
   \<and> last (stdout (snd (inference_main failing_openai example_inference_args start)))
       = Print ''Error: bad endpoint''"
proof -
  let ?a = "agent_main failing_service example_args start"
  let ?u = "agent_main unreachable_service example_args start"
  let ?o = "inference_main failing_openai example_inference_args start"
  let ?w1 = "\<lparr>calls = [DefaultAzureCredential, AIProjectClient ''E''],
              stdout = [Print ''Error creating client: bad endpoint'']\<rparr> :: agent_world"
  note T = errors_are_propagated [where srv = failing_service and w = start and args = example_args
      and osrv = failing_openai and ow = start and oargs = example_inference_args]
  note U = errors_are_propagated [where srv = unreachable_service and w = start and ep = "''E''"
      and aid = "''A123''" and p = "''hi''" and args = example_args]
  from T have A: "spec_main_propagates (agent_call_error failing_service) start ?a"
    by (rule conjunct1 [OF conjunct2 [OF conjunct2 [OF conjunct2 [OF conjunct2]]]])
  from T have O: "spec_main_propagates (openai_call_error failing_openai) start ?o"
    by (rule conjunct2 [OF conjunct2 [OF conjunct2 [OF conjunct2 [OF conjunct2 [OF conjunct2
          [OF conjunct2]]]]]])
  from U have UM: "spec_main_propagates (agent_call_error unreachable_service) start ?u"
    by (rule conjunct1 [OF conjunct2 [OF conjunct2 [OF conjunct2 [OF conjunct2]]]])
  from U have UC: "spec_client_wrapper_propagates (agent_call_error unreachable_service) start
                     (create_agent_client unreachable_service ''E'' start)"
    by (rule conjunct1)
  from U have UR: "\<forall>e w1. create_agent_client unreachable_service ''E'' start = (Inl e, w1) \<longrightarrow>
          make_agent_inference_request unreachable_service ''E'' ''A123'' ''hi'' start
            = (Inl e, print (''Error: '' @ message e) w1)
        \<and> list_agents unreachable_service ''E'' start = (Inl e, print (''Error: '' @ message e) w1)"
    by (rule conjunct1 [OF conjunct2])
  have cc: "fst (create_agent_client unreachable_service ''E'' (start :: agent_world))
              = Inl (Exception ''bad endpoint'')"
    and cl: "calls (snd (create_agent_client unreachable_service ''E'' (start :: agent_world)))
              = [DefaultAzureCredential, AIProjectClient ''E'']"
    and cn: "length (stdout (snd (create_agent_client unreachable_service ''E'' (start :: agent_world))))
              = 1"
    by (simp_all add: create_agent_client_def issue_def print_def unreachable_service_def
        example_service_def start_def Let_def)
  from UC cc have sl: "last (stdout (snd (create_agent_client unreachable_service ''E''
                         (start :: agent_world)))) = Print ''Error creating client: bad endpoint''"
    by (simp add: spec_client_wrapper_propagates_def case_prod_unfold)
  from cn sl have so: "stdout (snd (create_agent_client unreachable_service ''E''
                         (start :: agent_world))) = [Print ''Error creating client: bad endpoint'']"
    by (cases "stdout (snd (create_agent_client unreachable_service ''E'' (start :: agent_world)))")
       simp_all
  from cc cl so have c: "create_agent_client unreachable_service ''E'' start =
      (Inl (Exception ''bad endpoint''), ?w1)"
    by (simp add: prod_eq_iff)
  from UR [rule_format, OF c]
  have r: "make_agent_inference_request unreachable_service ''E'' ''A123'' ''hi'' start =
     (Inl (Exception ''bad endpoint''),
      \<lparr>calls = [DefaultAzureCredential, AIProjectClient ''E''],
       stdout = [Print ''Error creating client: bad endpoint'', Print ''Error: bad endpoint'']\<rparr>)"
    and l: "list_agents unreachable_service ''E'' start =
     (Inl (Exception ''bad endpoint''),
      \<lparr>calls = [DefaultAzureCredential, AIProjectClient ''E''],
       stdout = [Print ''Error creating client: bad endpoint'', Print ''Error: bad endpoint'']\<rparr>)"
    by (simp_all add: print_def)
  have cu: "calls (snd ?u) = [DefaultAzureCredential, AIProjectClient ''E'']"
    by (simp add: agent_main_def make_agent_inference_request_def create_agent_client_def
        issue_def print_def unreachable_service_def example_service_def example_args_def start_def
        Let_def)
  have eu: "errors_raised (agent_call_error unreachable_service) [] (calls (snd ?u))
              = [Exception ''bad endpoint'']"
    by (simp only: cu) (simp add: unreachable_service_def example_service_def)
  have ca: "calls (snd ?a) =
      [DefaultAzureCredential, AIProjectClient ''E'', Threads_create,
       Messages_create ''T1'' ''user'' [[(''type'', ''text''), (''text'', ''hi'')]],
       Runs_create_and_process ''T1'' ''A123'']"
    by (simp add: agent_main_def make_agent_inference_request_def create_agent_client_def
        issue_def print_def failing_service_def example_service_def example_args_def start_def
        user_content_def Let_def)
  have ea: "errors_raised (agent_call_error failing_service) [] (calls (snd ?a)) = [Exception ''boom'']"
    by (simp only: ca) (simp add: failing_service_def example_service_def)
  have co: "calls (snd ?o) = [AzureOpenAI ''K'' ''2024-02-01'' ''https://x.openai.azure.com'']"
    by (simp add: inference_main_def make_inference_request_def issue_def print_def
        failing_openai_def example_openai_def example_inference_args_def start_def Let_def)
  have eo: "errors_raised (openai_call_error failing_openai) [] (calls (snd ?o))
              = [Exception ''bad endpoint'']"
    by (simp only: co) (simp add: failing_openai_def example_openai_def)
  from UM eu have u: "fst ?u = 1
      \<and> last (butlast (stdout (snd ?u))) = Print ''Error: bad endpoint''
      \<and> last (stdout (snd ?u)) = Print ''Error: bad endpoint''"
    by (simp add: spec_main_propagates_def start_def case_prod_unfold)
  from A ea have a: "fst ?a = 1
      \<and> last (butlast (stdout (snd ?a))) = Print ''Error: boom''
      \<and> last (stdout (snd ?a)) = Print ''Error: boom''"
    by (simp add: spec_main_propagates_def start_def case_prod_unfold)
  from O eo have o: "fst ?o = 1 \<and> last (stdout (snd ?o)) = Print ''Error: bad endpoint''"
    by (simp add: spec_main_propagates_def start_def case_prod_unfold)
  from c r l eu u ea a eo o show ?thesis by simp
qed

text \<open>
  C9. \<open>list_models\<close> makes one call, the construction of the client, and no request for
  a listing of models. Whenever it returns, for every endpoint and API key, it returns
  the fixed list of the two entries for \<open>gpt-4\<close> and \<open>gpt-3.5-turbo\<close>; it returns
  whenever the construction of the client does not raise.
\<close>

theorem list_models_fixed:
  assumes "list_models srv ep key w = (res, w')"
  shows "calls w' = calls w @ [AzureOpenAI key ''2024-02-01'' ep]
       \<and> (\<forall>models. res = Inr models \<longrightarrow>
             models = [[(''name'', ''gpt-4''), (''model'', ''gpt-4'')],
                       [(''name'', ''gpt-3.5-turbo''), (''model'', ''gpt-3.5-turbo'')]])
       \<and> (azure_openai srv (calls w) key ''2024-02-01'' ep = None \<longrightarrow>
             res = Inr [[(''name'', ''gpt-4''), (''model'', ''gpt-4'')],
                        [(''name'', ''gpt-3.5-turbo''), (''model'', ''gpt-3.5-turbo'')]])"
proof (cases "azure_openai srv (calls w) key ''2024-02-01'' ep")
  case (Some e)
  with assms show ?thesis
    by (simp add: list_models_def issue_def print_def Let_def) auto
next
  case None
  with assms show ?thesis
    by (simp add: list_models_def issue_def print_def Let_def) auto
qed

theorem list_models_fixed_witness:
  "azure_openai example_openai (calls (start :: openai_world)) ''K'' ''2024-02-01'' ''E'' = None
   \<and> list_models example_openai ''E'' ''K'' start =
       (Inr [[(''name'', ''gpt-4''), (''model'', ''gpt-4'')],
             [(''name'', ''gpt-3.5-turbo''), (''model'', ''gpt-3.5-turbo'')]],
        \<lparr>calls = [AzureOpenAI ''K'' ''2024-02-01'' ''E''], stdout = []\<rparr>)"
proof -
  let ?run = "list_models example_openai ''E'' ''K'' start"
  have h1: "?run = (fst ?run, snd ?run)" by simp
  have h2: "azure_openai example_openai (calls (start :: openai_world)) ''K'' ''2024-02-01'' ''E'' = None"
    by (simp add: example_openai_def)
  note T = list_models_fixed [OF h1]
  from T have c: "calls (snd ?run) = calls (start :: openai_world) @ [AzureOpenAI ''K'' ''2024-02-01'' ''E'']"
    by (rule conjunct1)
  from T have "azure_openai example_openai (calls (start :: openai_world)) ''K'' ''2024-02-01'' ''E'' = None
     \<longrightarrow> fst ?run = Inr [[(''name'', ''gpt-4''), (''model'', ''gpt-4'')],
                        [(''name'', ''gpt-3.5-turbo''), (''model'', ''gpt-3.5-turbo'')]]"
    by (rule conjunct2 [OF conjunct2])
  from this [rule_format, OF h2] have r: "fst ?run =
      Inr [[(''name'', ''gpt-4''), (''model'', ''gpt-4'')],
           [(''name'', ''gpt-3.5-turbo''), (''model'', ''gpt-3.5-turbo'')]]" .
  have s: "stdout (snd ?run) = []"
    by (simp add: list_models_def issue_def example_openai_def start_def)
  have w: "snd ?run = \<lparr>calls = [AzureOpenAI ''K'' ''2024-02-01'' ''E''], stdout = []\<rparr>"
    using c s by (simp add: start_def)
  from h2 r w show ?thesis by (simp add: prod_eq_iff)
qed

text \<open>
  C10, as stated, fails: an assistant message with the single fragment value
  \<^verbatim>\<open>"a\nb"\<close> gives the response \<^verbatim>\<open>"a\nb"\<close>, whose lines are \<^verbatim>\<open>"a"\<close> and \<^verbatim>\<open>"b"\<close>; neither is
  a fragment value of the message.
\<close>

theorem line_not_a_fragment_counterexample:
  "fst (make_agent_inference_request multiline_service ''E'' ''A123'' ''hi'' start) =
     Inr \<lparr>thread_id = ''T1'', run_id = Some ''R1'',
          messages = [\<lparr>md_role = ''assistant'', md_content = [''a'' @ [newline] @ ''b'']\<rparr>],
          agent_response = ''a'' @ [newline] @ ''b''\<rparr>
   \<and> split_lines (''a'' @ [newline] @ ''b'') = [''a'', ''b'']
   \<and> ''a'' \<notin> set [''a'' @ [newline] @ ''b'']"
  by (simp add: make_agent_inference_request_def create_agent_client_def issue_def
        multiline_service_def example_service_def start_def user_content_def
        build_result_def normalize_message_def multiline_message_def newline_def)

text \<open>
  C10, amended. An assistant-role message none of whose fragments carries a text value
  (or whose content is absent or empty) contributes nothing to \<open>agent_response\<close>: the
  response is the one built without that message, so no empty line is inserted into the
  newline-join. If moreover no fragment value of an assistant message contains a newline
  character, the lines of a non-empty \<open>agent_response\<close> are exactly the fragment values
  of the other assistant messages, in order, and every line is a fragment value of some
  assistant message.
\<close>

theorem textless_assistant_message_contributes_nothing:
  assumes "msg_role m = ''assistant''"
    and "case msg_content m of None \<Rightarrow> True | Some cs \<Rightarrow> \<forall>c \<in> set cs. \<not> spec_has_text_value c"
  shows "agent_response (build_result t rn (ms1 @ m # ms2)) =
           agent_response (build_result t rn (ms1 @ ms2))
       \<and> (agent_response (build_result t rn (ms1 @ m # ms2)) \<noteq> []
            \<and> (\<forall>v \<in> set (spec_assistant_values (ms1 @ m # ms2)). newline \<notin> set v)
          \<longrightarrow> split_lines (agent_response (build_result t rn (ms1 @ m # ms2))) =
                spec_assistant_values (ms1 @ ms2)
              \<and> (\<forall>l \<in> set (split_lines (agent_response (build_result t rn (ms1 @ m # ms2)))).
                    \<exists>m' \<in> set (ms1 @ ms2).
                      msg_role m' = ''assistant'' \<and> l \<in> set (spec_text_values m')))"
proof -
  have nil: "spec_text_values m = []"
    using assms(2) by (rule spec_text_values_Nil)
  have skip: "spec_assistant_values (ms1 @ m # ms2) = spec_assistant_values (ms1 @ ms2)"
    using nil by (rule spec_assistant_values_skip)
  have resp: "agent_response (build_result t rn (ms1 @ m # ms2)) =
               join [newline] (spec_assistant_values (ms1 @ ms2))"
    by (simp only: build_result_eq spec_agent_response_def skip agent_result.simps)
  have resp': "agent_response (build_result t rn (ms1 @ ms2)) =
               join [newline] (spec_assistant_values (ms1 @ ms2))"
    by (simp only: build_result_eq spec_agent_response_def agent_result.simps)
  have lines: "split_lines (join [newline] (spec_assistant_values (ms1 @ ms2))) =
                 spec_assistant_values (ms1 @ ms2)"
    if ne: "join [newline] (spec_assistant_values (ms1 @ ms2)) \<noteq> []"
      and nl: "\<forall>v \<in> set (spec_assistant_values (ms1 @ ms2)). newline \<notin> set v"
  proof -
    from ne have "spec_assistant_values (ms1 @ ms2) \<noteq> []" by auto
    then show ?thesis using nl by (rule split_lines_join)
  qed
  have mem: "\<exists>m' \<in> set (ms1 @ ms2). msg_role m' = ''assistant'' \<and> l \<in> set (spec_text_values m')"
    if "l \<in> set (spec_assistant_values (ms1 @ ms2))" for l
    using that by (rule spec_assistant_values_mem)
  show ?thesis
    unfolding resp resp' skip
    using lines mem by auto
qed

theorem textless_assistant_message_contributes_nothing_witness:
  "msg_role (example_messages ! 1) = ''assistant''
   \<and> (case msg_content (example_messages ! 1) of
         None \<Rightarrow> True
       | Some cs \<Rightarrow> \<forall>c \<in> set cs. \<not> spec_has_text_value c)
   \<and> agent_response (build_result \<lparr>t_id = ''T1''\<rparr> \<lparr>r_id = None\<rparr>
         (take 1 example_messages @ example_messages ! 1 # drop 2 example_messages)) =
       agent_response (build_result \<lparr>t_id = ''T1''\<rparr> \<lparr>r_id = None\<rparr>
         (take 1 example_messages @ drop 2 example_messages))
   \<and> split_lines (agent_response (build_result \<lparr>t_id = ''T1''\<rparr> \<lparr>r_id = None\<rparr>
         (take 1 example_messages @ example_messages ! 1 # drop 2 example_messages))) =
       [''Hello'', ''there'']"
proof -
  let ?m = "example_messages ! 1"
  let ?ms1 = "take 1 example_messages"
  let ?ms2 = "drop 2 example_messages"
  let ?t = "\<lparr>t_id = ''T1''\<rparr>"
  let ?rn = "\<lparr>r_id = None\<rparr>"
  have h1: "msg_role ?m = ''assistant''"
    by (simp add: example_messages_def)
  have h2: "case msg_content ?m of None \<Rightarrow> True | Some cs \<Rightarrow> \<forall>c \<in> set cs. \<not> spec_has_text_value c"
    by (simp add: example_messages_def spec_has_text_value_def)
  have vals: "spec_assistant_values (?ms1 @ ?m # ?ms2) = [''Hello'', ''there'']"
    by (simp add: spec_assistant_values_def example_messages_def spec_text_values_def
        spec_has_text_value_def spec_fragment_value_def)
  have vals': "spec_assistant_values (?ms1 @ ?ms2) = [''Hello'', ''there'']"
    by (simp add: spec_assistant_values_def example_messages_def spec_text_values_def
        spec_has_text_value_def spec_fragment_value_def)
  have h3: "agent_response (build_result ?t ?rn (?ms1 @ ?m # ?ms2)) \<noteq> []"
    by (simp only: build_result_eq spec_agent_response_def vals agent_result.simps) simp
  have h4: "\<forall>v \<in> set (spec_assistant_values (?ms1 @ ?m # ?ms2)). newline \<notin> set v"
    by (simp only: vals) (simp add: newline_def)
  note T = textless_assistant_message_contributes_nothing [OF h1 h2, of ?t ?rn ?ms1 ?ms2]
  from T have a: "agent_response (build_result ?t ?rn (?ms1 @ ?m # ?ms2)) =
                  agent_response (build_result ?t ?rn (?ms1 @ ?ms2))"
    by (rule conjunct1)
  from T h3 h4 have c: "split_lines (agent_response (build_result ?t ?rn (?ms1 @ ?m # ?ms2))) =
                        spec_assistant_values (?ms1 @ ?ms2)"
    by blast
  from c vals' have d: "split_lines (agent_response (build_result ?t ?rn (?ms1 @ ?m # ?ms2))) =
                        [''Hello'', ''there'']"
    by (simp only:)
  from h1 h2 a d show ?thesis by blast
qed

end
